theory Spec2Isabelle
  imports Complex_Main
begin

section \<open>The event mixin of gooeypie/widgets.py\<close>

text \<open>
  Every widget class of the module mixes \<open>GooeyPieWidget\<close> into a tkinter class. The
  mixin keeps a dictionary \<open>_events\<close> from event names to the registered callback
  (\<open>None\<close> when no listener is registered) and wires tkinter's native triggers
  (\<open>bind\<close>, the \<open>command\<close> option, a variable trace) to \<open>_event\<close>.

  A leading underscore cannot start a name here, so \<open>_event\<close>, \<open>_events\<close>,
  \<open>_slider_change_event\<close>, \<open>_text_change_event\<close>, \<open>_previous_value\<close> and
  \<open>_tk_event_mappings\<close> appear without it.
\<close>

subsection \<open>Data\<close>

text \<open>The widget classes of the module. All but \<open>Table\<close> call
  \<open>GooeyPieWidget.__init__\<close>; \<open>Table\<close> has no constructor of its own, so a Table is
  built by \<open>ttk.Treeview.__init__\<close> alone and never gets the attribute \<open>_events\<close>.\<close>

datatype kind =
    Label | Button | Slider | StyleLabel | Hyperlink | Image | Input | Secret
  | Listbox | Textbox | ImageButton | Checkbox | Radiogroup | LabelRadiogroup
  | Dropdown | Spinbox | Table

definition has_events :: "kind \<Rightarrow> bool" where
  "has_events k = (k \<noteq> Table)"

text \<open>A user callback: a function (\<open>def\<close> or \<open>lambda\<close>) with its \<open>__name__\<close>, its
  \<open>co_argcount\<close> and its \<open>co_kwonlyargcount\<close>; a method bound to its object, with the
  same three of the underlying function, whose \<open>co_argcount\<close> counts \<open>self\<close>; or another
  callable, which has no \<open>__code__\<close> (a \<open>functools.partial\<close>, a builtin, an object with
  \<open>__call__\<close>), with the number of arguments it takes. Parameters are taken to have no
  defaults, and there is no \<open>*args\<close>.\<close>

datatype callback =
    Function string nat nat
  | Bound_method string nat nat
  | Callable_object nat

text \<open>\<open>callback.__code__.co_argcount\<close>; \<open>None\<close> stands for the \<open>AttributeError\<close> of a
  callable without \<open>__code__\<close>.\<close>

fun co_argcount :: "callback \<Rightarrow> nat option" where
  "co_argcount (Function n a k) = Some a"
| "co_argcount (Bound_method n a k) = Some a"
| "co_argcount (Callable_object m) = None"

fun cb_name :: "callback \<Rightarrow> string" where
  "cb_name (Function n a k) = n"
| "cb_name (Bound_method n a k) = n"
| "cb_name (Callable_object m) = []"

text \<open>Whether the call \<open>callback(gooeypie_event)\<close>, with its one positional argument,
  fits the callable's parameters: its arity is 1.\<close>

fun accepts_single_argument :: "callback \<Rightarrow> bool" where
  "accepts_single_argument (Function n a k) = (a = 1 \<and> k = 0)"
| "accepts_single_argument (Bound_method n a k) = (a = 2 \<and> k = 0)"
| "accepts_single_argument (Callable_object m) = (m = 1)"

text \<open>The tkinter event object, as far as \<open>GooeyPieEvent.__init__\<close> reads it.\<close>

record tk_event =
  tk_x :: int
  tk_y :: int
  tk_x_root :: int
  tk_y_root :: int
  tk_char :: string
  tk_keysym :: string
  tk_keycode :: int

record mouse_info =
  mouse_x :: int
  mouse_y :: int
  mouse_x_root :: int
  mouse_y_root :: int

record key_info =
  key_char :: string
  key_keysym :: string
  key_keycode :: int

text \<open>\<open>GooeyPieEvent\<close>; the back-reference \<open>widget\<close> is kept as the widget's class.\<close>

record GooeyPieEvent =
  event_name :: string
  widget :: kind
  mouse :: "mouse_info option"
  key :: "key_info option"

text \<open>What the module hands to tkinter as a native handler: one of the three
  \<open>partial(...)\<close> objects built in \<open>add_event_listener\<close>, or a handler of the
  widget's own that never reaches \<open>_event\<close> (the hyperlink's and the textbox's
  bindings).\<close>

datatype handler =
    Event_partial string
  | Slider_change_partial string
  | Text_change_partial string
  | Own_handler string

datatype message = InvalidEvent string | InvalidCallback string

text \<open>The exceptions of the modelled code. \<open>TypeError\<close> is Python's own, raised by
  calling \<open>None\<close>; \<open>TclError\<close> is tkinter's, raised by \<open>configure\<close> on an option
  the widget does not have.\<close>

datatype error =
    GooeyPieError message
  | AttributeError string
  | ValueError string
  | IndexError
  | TypeError
  | TclError

text \<open>One widget object: the mixin's attributes, the tkinter variables the mixin
  reads, the native wiring tkinter holds for the widget, and \<open>calls\<close>, the log of
  user callbacks invoked so far (with the event object each one received).

  For a Slider: \<open>slider_var\<close> is the number the scale last wrote to the tkinter variable
  \<open>_value\<close> (a \<open>ttk.Scale\<close> writes doubles), \<open>var_is_double\<close> tells a \<open>DoubleVar\<close> from an
  \<open>IntVar\<close>, \<open>scale_from\<close> and \<open>scale_to\<close> are the options \<open>from\<close> and \<open>to\<close> of the scale.
  A double is kept as the real number it denotes: the code compares and truncates,
  nothing else. \<open>events\<close> of a Table is never read (the attribute does not exist).\<close>

record widget_state =
  kind_of :: kind
  events :: "string \<rightharpoonup> callback option"
  disabled :: bool
  var_is_double :: bool
  scale_from :: real
  scale_to :: real
  slider_var :: real
  previous_value :: real
  text_var :: string
  bindings :: "string \<rightharpoonup> handler"
  command :: "handler option"
  radiobuttons :: "handler option list"
  traces :: "handler list"
  calls :: "(callback \<times> GooeyPieEvent) list"

text \<open>A Python call either returns or raises; both leave the object as mutated so far.\<close>

datatype outcome = Returns widget_state | Raises error widget_state

fun state_of :: "outcome \<Rightarrow> widget_state" where
  "state_of (Returns w) = w"
| "state_of (Raises e w) = w"

fun and_then :: "outcome \<Rightarrow> (widget_state \<Rightarrow> outcome) \<Rightarrow> outcome" where
  "and_then (Returns w) f = f w"
| "and_then (Raises e w) f = Raises e w"

subsection \<open>\<open>GooeyPieEvent.__init__\<close>\<close>

definition make_event :: "string \<Rightarrow> kind \<Rightarrow> tk_event option \<Rightarrow> GooeyPieEvent" where
  "make_event name k tk =
     (case tk of
        Some e \<Rightarrow>
          \<lparr> event_name = name, widget = k,
            mouse = Some \<lparr> mouse_x = tk_x e, mouse_y = tk_y e,
                           mouse_x_root = tk_x_root e, mouse_y_root = tk_y_root e \<rparr>,
            key = (if tk_char e = ''??'' then None
                   else Some \<lparr> key_char = tk_char e, key_keysym = tk_keysym e,
                                key_keycode = tk_keycode e \<rparr>) \<rparr>
      | None \<Rightarrow> \<lparr> event_name = name, widget = k, mouse = None, key = None \<rparr>)"

subsection \<open>The mixin\<close>

definition tk_event_mappings :: "(string \<times> string) list" where
  "tk_event_mappings =
     [(''mouse_down'', ''<Button-1>''),
      (''mouse_up'', ''<ButtonRelease-1>''),
      (''double_click'', ''<Double-Button-1>''),
      (''triple_click'', ''<Triple-Button-1>''),
      (''middle_click'', ''<Button-2>''),
      (''right_click'', ''<Button-3>''),
      (''mouse_over'', ''<Enter>''),
      (''mouse_out'', ''<Leave>''),
      (''key_press'', ''<Key>''),
      (''focus'', ''<FocusIn>''),
      (''blur'', ''<FocusOut>'')]"

text \<open>\<open>GooeyPieWidget.__init__\<close>: every tk event name is a key, with no callback.
  The other fields are the state of a tkinter widget nothing has been wired to.\<close>

definition GooeyPieWidget_init :: "kind \<Rightarrow> widget_state" where
  "GooeyPieWidget_init k =
     \<lparr> kind_of = k,
       events = map_of (map (\<lambda>(name, seq). (name, None)) tk_event_mappings),
       disabled = False,
       var_is_double = False, scale_from = 0, scale_to = 0,
       slider_var = 0, previous_value = 0, text_var = [],
       bindings = Map.empty, command = None, radiobuttons = [], traces = [],
       calls = [] \<rparr>"

text \<open>\<open>_event\<close>. The lookup \<open>self._events[event_name]\<close> raises \<open>KeyError\<close> for a
  name that is no key, which the handler turns into \<open>AttributeError\<close>; for a key
  whose value is \<open>None\<close> the call \<open>None(gooeypie_event)\<close> raises \<open>TypeError\<close>,
  which no handler catches. On a Table the attribute \<open>_events\<close> is missing, and the
  \<open>AttributeError\<close> of reading it is not caught either. A callback whose parameters
  do not fit the one argument raises \<open>TypeError\<close> before its body runs. A callback
  that is entered is taken to return without raising and without touching the
  widget; its invocation is recorded in \<open>calls\<close>.\<close>

definition event :: "string \<Rightarrow> tk_event option \<Rightarrow> widget_state \<Rightarrow> outcome" where
  "event name tk w =
     (let gooeypie_event = make_event name (kind_of w) tk in
      if \<not> has_events (kind_of w) then Raises (AttributeError ''_events'') w
      else (case events w name of
        None \<Rightarrow> Raises (AttributeError name) w
      | Some None \<Rightarrow> Raises TypeError w
      | Some (Some cb) \<Rightarrow>
          if accepts_single_argument cb
          then Returns (w\<lparr>calls := calls w @ [(cb, gooeypie_event)]\<rparr>)
          else Raises TypeError w))"

text \<open>\<open>self._value.get()\<close> of a Slider: a \<open>DoubleVar\<close> yields the double; an \<open>IntVar\<close>
  yields \<open>int(...)\<close> of it, which truncates towards zero.\<close>

definition py_int :: "real \<Rightarrow> int" where
  "py_int x = (if 0 \<le> x then \<lfloor>x\<rfloor> else \<lceil>x\<rceil>)"

definition value_get :: "widget_state \<Rightarrow> real" where
  "value_get w = (if var_is_double w then slider_var w else of_int (py_int (slider_var w)))"

text \<open>\<open>_slider_change_event\<close>: the value tkinter passes is not read; the guard
  compares what the variable yields with \<open>_previous_value\<close>, which is updated before
  the dispatch.\<close>

definition slider_change_event :: "string \<Rightarrow> real \<Rightarrow> widget_state \<Rightarrow> outcome" where
  "slider_change_event name slider_value w =
     (if value_get w \<noteq> previous_value w
      then event name None (w\<lparr>previous_value := value_get w\<rparr>)
      else Returns w)"

text \<open>\<open>_text_change_event\<close>: the three arguments of the trace are not read, and
  nothing is compared.\<close>

definition text_change_event ::
  "string \<Rightarrow> string \<Rightarrow> string \<Rightarrow> string \<Rightarrow> widget_state \<Rightarrow> outcome" where
  "text_change_event name a b c w = event name None w"

subsection \<open>What tkinter keeps for the widget\<close>

text \<open>\<open>widget.bind(sequence, func)\<close> replaces the binding of the sequence,
  \<open>widget.unbind(sequence)\<close> removes it, and \<open>variable.trace('w', func)\<close> adds one
  more write trace.\<close>

definition bind :: "string \<Rightarrow> handler \<Rightarrow> widget_state \<Rightarrow> widget_state" where
  "bind seq h w = w\<lparr>bindings := (bindings w)(seq \<mapsto> h)\<rparr>"

definition unbind :: "string \<Rightarrow> widget_state \<Rightarrow> widget_state" where
  "unbind seq w = w\<lparr>bindings := (bindings w)(seq := None)\<rparr>"

definition trace :: "handler \<Rightarrow> widget_state \<Rightarrow> widget_state" where
  "trace h w = w\<lparr>traces := traces w @ [h]\<rparr>"

text \<open>The tkinter classes with a \<open>command\<close> option among the bases of the module's
  classes: \<open>ttk.Button\<close>, \<open>ttk.Scale\<close>, \<open>ttk.Checkbutton\<close> and \<open>ttk.Spinbox\<close>.
  On any other widget \<open>configure(command=...)\<close> raises \<open>TclError\<close>.\<close>

fun has_command :: "kind \<Rightarrow> bool" where
  "has_command Button = True"
| "has_command ImageButton = True"
| "has_command Slider = True"
| "has_command Checkbox = True"
| "has_command Spinbox = True"
| "has_command _ = False"

definition configure_command :: "handler option \<Rightarrow> widget_state \<Rightarrow> outcome" where
  "configure_command c w =
     (if has_command (kind_of w) then Returns (w\<lparr>command := c\<rparr>) else Raises TclError w)"

subsection \<open>\<open>isinstance\<close> tests of \<open>add_event_listener\<close>\<close>

fun isinstance_RadiogroupBase :: "kind \<Rightarrow> bool" where
  "isinstance_RadiogroupBase Radiogroup = True"
| "isinstance_RadiogroupBase LabelRadiogroup = True"
| "isinstance_RadiogroupBase _ = False"

fun isinstance_Checkbox_Spinbox :: "kind \<Rightarrow> bool" where
  "isinstance_Checkbox_Spinbox Checkbox = True"
| "isinstance_Checkbox_Spinbox Spinbox = True"
| "isinstance_Checkbox_Spinbox _ = False"

fun isinstance_Input :: "kind \<Rightarrow> bool" where
  "isinstance_Input Input = True"
| "isinstance_Input Secret = True"
| "isinstance_Input _ = False"

subsection \<open>\<open>add_event_listener\<close> and \<open>remove_event_listener\<close>\<close>

text \<open>The four wiring blocks of \<open>add_event_listener\<close>, in the order of the source.\<close>

definition wire_tk_event :: "string \<Rightarrow> widget_state \<Rightarrow> outcome" where
  "wire_tk_event name w =
     (case map_of tk_event_mappings name of
        Some seq \<Rightarrow> Returns (bind seq (Event_partial name) w)
      | None \<Rightarrow> Returns w)"

definition wire_change_radio :: "string \<Rightarrow> widget_state \<Rightarrow> outcome" where
  "wire_change_radio name w =
     (if isinstance_RadiogroupBase (kind_of w)
      then Returns (w\<lparr>radiobuttons := map (\<lambda>rb. Some (Event_partial name)) (radiobuttons w)\<rparr>)
      else Returns w)"

definition wire_change_slider :: "string \<Rightarrow> widget_state \<Rightarrow> outcome" where
  "wire_change_slider name w =
     (if kind_of w = Slider then configure_command (Some (Slider_change_partial name)) w
      else Returns w)"

definition wire_change_checkbox :: "string \<Rightarrow> widget_state \<Rightarrow> outcome" where
  "wire_change_checkbox name w =
     (if isinstance_Checkbox_Spinbox (kind_of w)
      then configure_command (Some (Event_partial name)) w
      else Returns w)"

definition wire_change_input :: "string \<Rightarrow> widget_state \<Rightarrow> outcome" where
  "wire_change_input name w =
     (if isinstance_Input (kind_of w) then Returns (trace (Text_change_partial name) w)
      else Returns w)"

definition wire_change_textbox :: "string \<Rightarrow> widget_state \<Rightarrow> outcome" where
  "wire_change_textbox name w =
     (if kind_of w = Textbox then Returns (bind ''<<Modified>>'' (Event_partial name) w)
      else Returns w)"

definition wire_change :: "string \<Rightarrow> widget_state \<Rightarrow> outcome" where
  "wire_change name w =
     (if name = ''change''
      then and_then (and_then (and_then (and_then (wire_change_radio name w)
             (wire_change_slider name)) (wire_change_checkbox name))
             (wire_change_input name)) (wire_change_textbox name)
      else Returns w)"

definition wire_press :: "string \<Rightarrow> widget_state \<Rightarrow> outcome" where
  "wire_press name w =
     (if name = ''press'' then configure_command (Some (Event_partial name)) w
      else Returns w)"

definition wire_select :: "string \<Rightarrow> widget_state \<Rightarrow> outcome" where
  "wire_select name w =
     (if name = ''select''
      then (if kind_of w = Listbox
            then Returns (bind ''<<ListboxSelect>>'' (Event_partial name) w)
            else if kind_of w = Dropdown
            then Returns (bind ''<<ComboboxSelected>>'' (Event_partial name) w)
            else Returns w)
      else Returns w)"

text \<open>\<open>str(self)\<close>, which the messages of the two operations format in. Only
  \<open>Radiogroup.__str__\<close> can fail: it reads \<open>self.choices\<close>, an attribute no constructor
  of a Radiogroup assigns (\<open>LabelRadiogroup.__str__\<close> reads the property \<open>options\<close>).
  \<open>None\<close> stands for a string.\<close>

fun str_error :: "kind \<Rightarrow> error option" where
  "str_error Radiogroup = Some (AttributeError ''choices'')"
| "str_error k = None"

definition raise_with_self :: "error \<Rightarrow> widget_state \<Rightarrow> outcome" where
  "raise_with_self e w =
     (case str_error (kind_of w) of
        Some e' \<Rightarrow> Raises e' w
      | None \<Rightarrow> Raises e w)"

definition add_event_listener :: "string \<Rightarrow> callback \<Rightarrow> widget_state \<Rightarrow> outcome" where
  "add_event_listener name cb w =
     (if \<not> has_events (kind_of w) then Raises (AttributeError ''_events'') w
      else if events w name = None
      then raise_with_self (GooeyPieError (InvalidEvent name)) w
      else (case co_argcount cb of
        None \<Rightarrow> Raises (AttributeError ''__code__'') w
      | Some n \<Rightarrow>
          if n \<noteq> 1
          then Raises (GooeyPieError (InvalidCallback (cb_name cb))) w
          else and_then (and_then (and_then
                 (wire_tk_event name (w\<lparr>events := (events w)(name \<mapsto> Some cb)\<rparr>))
                 (wire_change name)) (wire_press name)) (wire_select name)))"

text \<open>\<open>remove_event_listener\<close>. The assignment \<open>self._events[event_name] = None\<close>
  comes first and, where the attribute exists, cannot raise; the only \<open>KeyError\<close> of
  the \<open>try\<close> block is the lookup in \<open>_tk_event_mappings\<close>.\<close>

definition remove_event_listener :: "string \<Rightarrow> widget_state \<Rightarrow> outcome" where
  "remove_event_listener name w =
     (if \<not> has_events (kind_of w) then Raises (AttributeError ''_events'') w
      else
        let w1 = w\<lparr>events := (events w)(name \<mapsto> None)\<rparr> in
        if name = ''change'' \<or> name = ''press''
        then configure_command None w1
        else (case map_of tk_event_mappings name of
                Some seq \<Rightarrow> Returns (unbind seq w1)
              | None \<Rightarrow> raise_with_self (ValueError name) w1))"

text \<open>The setter of \<open>disabled\<close>: \<open>self._disabled = bool(value)\<close>, then \<open>self.state(...)\<close>,
  a method of the ttk widgets only (\<open>tk.Listbox\<close> and the \<open>ScrolledText\<close> under a Textbox
  do not have it).\<close>

fun has_state :: "kind \<Rightarrow> bool" where
  "has_state Listbox = False"
| "has_state Textbox = False"
| "has_state k = True"

definition disabled_set :: "bool \<Rightarrow> widget_state \<Rightarrow> outcome" where
  "disabled_set v w =
     (let w1 = w\<lparr>disabled := v\<rparr> in
      if has_state (kind_of w) then Returns w1 else Raises (AttributeError ''state'') w1)"

subsection \<open>The constructors\<close>

text \<open>\<open>self._events[name] = None\<close> in a constructor.\<close>

definition declare_event :: "string \<Rightarrow> widget_state \<Rightarrow> widget_state" where
  "declare_event name w = w\<lparr>events := (events w)(name \<mapsto> None)\<rparr>"

definition Label_init :: widget_state where
  "Label_init = GooeyPieWidget_init Label"

text \<open>\<open>Button.__init__\<close> registers the callback it is given, unless it is falsy
  (\<open>None\<close>); \<open>ImageButton.__init__\<close> starts with \<open>Button.__init__\<close>.\<close>

definition Button_init :: "callback option \<Rightarrow> outcome" where
  "Button_init callback =
     (let w = declare_event ''press'' (GooeyPieWidget_init Button) in
      case callback of
        None \<Rightarrow> Returns w
      | Some cb \<Rightarrow> add_event_listener ''press'' cb w)"

definition ImageButton_init :: "callback option \<Rightarrow> outcome" where
  "ImageButton_init callback =
     (let w = declare_event ''press'' (GooeyPieWidget_init ImageButton) in
      case callback of
        None \<Rightarrow> Returns w
      | Some cb \<Rightarrow> add_event_listener ''press'' cb w)"

text \<open>A Python number, as \<open>Slider.__init__\<close> tells them apart by
  \<open>isinstance(..., float)\<close>.\<close>

datatype number = Int_number int | Float_number real

fun is_float :: "number \<Rightarrow> bool" where
  "is_float (Int_number i) = False"
| "is_float (Float_number x) = True"

fun real_of_number :: "number \<Rightarrow> real" where
  "real_of_number (Int_number i) = of_int i"
| "real_of_number (Float_number x) = x"

text \<open>\<open>Slider.__init__\<close>: the variable is a \<open>DoubleVar\<close> when a bound is a float and an
  \<open>IntVar\<close> otherwise; fresh, it holds 0, and \<open>_previous_value\<close> is read from it; the
  bounds are swapped for the vertical orientation.\<close>

definition Slider_init :: "number \<Rightarrow> number \<Rightarrow> string \<Rightarrow> widget_state" where
  "Slider_init low high orientation =
     (let w = (declare_event ''change'' (GooeyPieWidget_init Slider))
                \<lparr>var_is_double := is_float low \<or> is_float high, slider_var := 0\<rparr>;
          w = w\<lparr>previous_value := value_get w\<rparr>
      in if orientation = ''vertical''
         then w\<lparr>scale_from := real_of_number high, scale_to := real_of_number low\<rparr>
         else w\<lparr>scale_from := real_of_number low, scale_to := real_of_number high\<rparr>)"

definition StyleLabel_init :: widget_state where
  "StyleLabel_init = GooeyPieWidget_init StyleLabel"

definition Hyperlink_init :: widget_state where
  "Hyperlink_init =
     bind ''<Button-1>'' (Own_handler ''_open_link'')
       (bind ''<Enter>'' (Own_handler ''cursor'') (GooeyPieWidget_init Hyperlink))"

definition Image_init :: widget_state where
  "Image_init = GooeyPieWidget_init Image"

definition Input_init :: widget_state where
  "Input_init = declare_event ''change'' ((GooeyPieWidget_init Input)\<lparr>text_var := []\<rparr>)"

definition Secret_init :: widget_state where
  "Secret_init = declare_event ''change'' ((GooeyPieWidget_init Secret)\<lparr>text_var := []\<rparr>)"

definition Listbox_init :: widget_state where
  "Listbox_init = declare_event ''select'' (GooeyPieWidget_init Listbox)"

definition Textbox_init :: widget_state where
  "Textbox_init =
     bind ''<Control-Tab>'' (Own_handler ''insert_tab'')
       (bind ''<Shift-Tab>'' (Own_handler ''focus_previous_widget'')
         (bind ''<Tab>'' (Own_handler ''focus_next_widget'') (GooeyPieWidget_init Textbox)))"

definition Checkbox_init :: widget_state where
  "Checkbox_init = declare_event ''change'' (GooeyPieWidget_init Checkbox)"

text \<open>\<open>RadiogroupBase.__init__\<close> packs one radiobutton per choice, none with a
  command yet.\<close>

definition RadiogroupBase_init :: "kind \<Rightarrow> string list \<Rightarrow> widget_state" where
  "RadiogroupBase_init k choices =
     (declare_event ''change'' (GooeyPieWidget_init k))
       \<lparr>radiobuttons := map (\<lambda>choice. None) choices\<rparr>"

definition Radiogroup_init :: "string list \<Rightarrow> widget_state" where
  "Radiogroup_init choices = RadiogroupBase_init Radiogroup choices"

definition LabelRadiogroup_init :: "string list \<Rightarrow> widget_state" where
  "LabelRadiogroup_init choices = RadiogroupBase_init LabelRadiogroup choices"

definition Dropdown_init :: widget_state where
  "Dropdown_init = declare_event ''select'' (GooeyPieWidget_init Dropdown)"

definition Spinbox_init :: widget_state where
  "Spinbox_init = declare_event ''change'' (GooeyPieWidget_init Spinbox)"

text \<open>A Table: \<open>GooeyPieWidget.__init__\<close> does not run, so there is no \<open>_events\<close>; the
  field stays empty and is never read.\<close>

definition Table_init :: widget_state where
  "Table_init = (GooeyPieWidget_init Table)\<lparr>events := Map.empty\<rparr>"

text \<open>The event names of a widget class: the keys of \<open>_tk_event_mappings\<close> and the
  name its constructor adds.\<close>

fun class_events :: "kind \<Rightarrow> string list" where
  "class_events Button = [''press'']"
| "class_events ImageButton = [''press'']"
| "class_events Slider = [''change'']"
| "class_events Input = [''change'']"
| "class_events Secret = [''change'']"
| "class_events Checkbox = [''change'']"
| "class_events Radiogroup = [''change'']"
| "class_events LabelRadiogroup = [''change'']"
| "class_events Spinbox = [''change'']"
| "class_events Listbox = [''select'']"
| "class_events Dropdown = [''select'']"
| "class_events _ = []"

definition supported_events :: "kind \<Rightarrow> string list" where
  "supported_events k =
     (if has_events k then map fst tk_event_mappings @ class_events k else [])"

subsection \<open>Native triggers\<close>

text \<open>How tkinter calls a handler: a bound sequence passes the tk event, a
  \<open>command\<close> passes nothing, the \<open>command\<close> of a \<open>ttk.Scale\<close> passes the new value,
  a write trace passes three names. \<open>_event\<close> given the scale's value as its
  \<open>tk_event\<close> fails on reading \<open>tk_event.x\<close>. tkinter calls a handler only from the
  trigger it was attached to; the remaining combinations stand for a call that does
  not fit the handler's signature.\<close>

datatype native_args =
    No_args
  | Bound_event tk_event
  | Scale_value real
  | Trace_args string string string

fun call_handler :: "handler \<Rightarrow> native_args \<Rightarrow> widget_state \<Rightarrow> outcome" where
  "call_handler (Event_partial n) No_args w = event n None w"
| "call_handler (Event_partial n) (Bound_event e) w = event n (Some e) w"
| "call_handler (Event_partial n) (Scale_value v) w = Raises (AttributeError ''x'') w"
| "call_handler (Slider_change_partial n) (Scale_value v) w = slider_change_event n v w"
| "call_handler (Text_change_partial n) (Trace_args a b c) w = text_change_event n a b c w"
| "call_handler (Own_handler h) args w = Returns w"
| "call_handler h args w = Raises TypeError w"

text \<open>The event name a handler dispatches.\<close>

fun dispatches :: "handler \<Rightarrow> string option" where
  "dispatches (Event_partial n) = Some n"
| "dispatches (Slider_change_partial n) = Some n"
| "dispatches (Text_change_partial n) = Some n"
| "dispatches (Own_handler h) = None"

text \<open>The triggers themselves. An exception of a handler is reported by tkinter and
  does not reach the program; it is kept in the outcome to show what happened.\<close>

definition tk_fire_sequence :: "string \<Rightarrow> tk_event \<Rightarrow> widget_state \<Rightarrow> outcome" where
  "tk_fire_sequence seq e w =
     (case bindings w seq of
        None \<Rightarrow> Returns w
      | Some h \<Rightarrow> call_handler h (Bound_event e) w)"

definition tk_invoke_command :: "widget_state \<Rightarrow> outcome" where
  "tk_invoke_command w =
     (case command w of
        None \<Rightarrow> Returns w
      | Some h \<Rightarrow> call_handler h No_args w)"

text \<open>Modelled from Tk: the widget command \<open>set\<close> of a \<open>ttk::scale\<close>, which
  \<open>Scale.set\<close> calls and a drag of the slider goes through. A disabled scale ignores
  it. Otherwise the value is limited to the range between \<open>from\<close> and \<open>to\<close>, written
  to the linked variable, and the command is called with it.\<close>

definition clamp :: "real \<Rightarrow> real \<Rightarrow> real \<Rightarrow> real" where
  "clamp from to v =
     (if from < to
      then (if v < from then from else if v > to then to else v)
      else (if v < to then to else if v > from then from else v))"

definition tk_scale_set :: "real \<Rightarrow> widget_state \<Rightarrow> outcome" where
  "tk_scale_set v w =
     (if disabled w then Returns w
      else
        let value = clamp (scale_from w) (scale_to w) v;
            w1 = w\<lparr>slider_var := value\<rparr> in
        case command w1 of
          None \<Rightarrow> Returns w1
        | Some h \<Rightarrow> call_handler h (Scale_value value) w1)"

definition tk_radiobutton_invoke :: "nat \<Rightarrow> widget_state \<Rightarrow> outcome" where
  "tk_radiobutton_invoke i w =
     (if i < length (radiobuttons w)
      then (case radiobuttons w ! i of
              None \<Rightarrow> Returns w
            | Some h \<Rightarrow> call_handler h No_args w)
      else Returns w)"

text \<open>Writing the variable of an Input runs each write trace; a trace that raises
  does not stop the next one.\<close>

fun run_traces :: "handler list \<Rightarrow> widget_state \<Rightarrow> widget_state" where
  "run_traces [] w = w"
| "run_traces (h # hs) w =
     run_traces hs (state_of (call_handler h (Trace_args ''PY_VAR'' [] ''w'') w))"

definition tk_variable_write :: "string \<Rightarrow> widget_state \<Rightarrow> widget_state" where
  "tk_variable_write s w = run_traces (traces w) (w\<lparr>text_var := s\<rparr>)"



text \<open>A callback of one argument, \<open>def on_change(event)\<close>, for the concrete runs
  below.\<close>

definition on_change :: callback where
  "on_change = Function ''on_change'' 1 0"

section \<open>The property facade\<close>

subsection \<open>\<open>Input.secret\<close>\<close>

text \<open>The \<open>show\<close> option of the \<open>ttk.Entry\<close> under an Input. The mask of the source
  is the character U+25CF, here its three UTF-8 bytes.\<close>

record entry_config =
  show_option :: string

definition bullet :: string where
  "bullet = [CHR 0xE2, CHR 0x97, CHR 0x8F]"

text \<open>The getter: \<open>return self.secret\<close>, a read of the property, which calls the
  getter again. A result of \<open>None\<close> stands for a call that does not return.\<close>

partial_function (option) secret :: "entry_config \<Rightarrow> bool option" where
  "secret w = secret w"

definition secret_set :: "bool \<Rightarrow> entry_config \<Rightarrow> entry_config" where
  "secret_set v w = (if v then w\<lparr>show_option := bullet\<rparr> else w\<lparr>show_option := []\<rparr>)"

subsection \<open>\<open>StyleLabel\<close>: the font properties\<close>

text \<open>The dictionary \<open>font.Font(...).actual()\<close> returns.\<close>

record font_dict =
  f_family :: string
  f_size :: int
  f_weight :: string
  f_slant :: string
  f_underline :: int
  f_overstrike :: int

text \<open>The style of the label holds the last font description handed to
  \<open>style.configure\<close>, the list \<open>[family, size, options]\<close>; before the first one the
  lookup yields the default font.\<close>

record stylelabel =
  default_font :: font_dict
  style_font :: "(string \<times> int \<times> string) option"

text \<open>\<open>' '.join(options)\<close>, and the words of such a string.\<close>

fun join_spaces :: "string list \<Rightarrow> string" where
  "join_spaces [] = []"
| "join_spaces [x] = x"
| "join_spaces (x # y # ys) = x @ '' '' @ join_spaces (y # ys)"

fun words_from :: "string \<Rightarrow> string \<Rightarrow> string list" where
  "words_from acc [] = (if acc = [] then [] else [acc])"
| "words_from acc (c # cs) =
     (if c = CHR '' ''
      then (if acc = [] then words_from [] cs else acc # words_from [] cs)
      else words_from (acc @ [c]) cs)"

text \<open>Modelled from tkinter: \<open>Font(font=description).actual()\<close> reads the style words
  of a description back into a dictionary. (A family the system does not have would
  be replaced; the model keeps the family and the size as given.)\<close>

definition actual :: "string \<times> int \<times> string \<Rightarrow> font_dict" where
  "actual d =
     (case d of (fam, sz, opts) \<Rightarrow>
        \<lparr> f_family = fam, f_size = sz,
          f_weight = (if ''bold'' \<in> set (words_from [] opts) then ''bold'' else ''normal''),
          f_slant = (if ''italic'' \<in> set (words_from [] opts) then ''italic'' else ''roman''),
          f_underline = (if ''underline'' \<in> set (words_from [] opts) then 1 else 0),
          f_overstrike = (if ''overstrike'' \<in> set (words_from [] opts) then 1 else 0) \<rparr>)"

definition get_current_font :: "stylelabel \<Rightarrow> font_dict" where
  "get_current_font l =
     (case style_font l of None \<Rightarrow> default_font l | Some d \<Rightarrow> actual d)"

text \<open>\<open>_set_font\<close> (the private one, taking the dictionary).\<close>

definition set_font_dict :: "font_dict \<Rightarrow> stylelabel \<Rightarrow> stylelabel" where
  "set_font_dict fd l =
     (let options =
            (if f_weight fd = ''bold'' then [''bold''] else [])
          @ (if f_slant fd = ''italic'' then [''italic''] else [])
          @ (if f_underline fd = 1 then [''underline''] else [])
          @ (if f_overstrike fd = 1 then [''overstrike''] else [])
      in l\<lparr>style_font := Some (f_family fd, f_size fd, join_spaces options)\<rparr>)"

text \<open>\<open>_set_font_property(key, value)\<close>, for the four keys the setters use.\<close>

datatype font_entry = Weight string | Slant string | Underline int | Overstrike int

fun put_entry :: "font_entry \<Rightarrow> font_dict \<Rightarrow> font_dict" where
  "put_entry (Weight v) fd = fd\<lparr>f_weight := v\<rparr>"
| "put_entry (Slant v) fd = fd\<lparr>f_slant := v\<rparr>"
| "put_entry (Underline v) fd = fd\<lparr>f_underline := v\<rparr>"
| "put_entry (Overstrike v) fd = fd\<lparr>f_overstrike := v\<rparr>"

definition set_font_property :: "font_entry \<Rightarrow> stylelabel \<Rightarrow> stylelabel" where
  "set_font_property entry l = set_font_dict (put_entry entry (get_current_font l)) l"

text \<open>\<open>tuple.index(value)\<close> and \<open>list.index(value)\<close>: the first position of the value;
  \<open>None\<close> stands for the \<open>ValueError\<close> Python raises when there is none.\<close>

fun index :: "'a list \<Rightarrow> 'a \<Rightarrow> nat option" where
  "index [] v = None"
| "index (x # xs) v = (if x = v then Some 0 else map_option Suc (index xs v))"

text \<open>The four setters with an enumeration. Each \<open>except ValueError\<close> raises a
  \<open>ValueError\<close> whose message names the property and quotes the value.\<close>

definition font_weight_set :: "string \<Rightarrow> stylelabel \<Rightarrow> error + stylelabel" where
  "font_weight_set v l =
     (case index [''bold'', ''normal''] v of
        None \<Rightarrow> Inl (ValueError v)
      | Some i \<Rightarrow> Inr (set_font_property (Weight v) l))"

definition font_style_set :: "string \<Rightarrow> stylelabel \<Rightarrow> error + stylelabel" where
  "font_style_set v l =
     (case index [''italic'', ''normal''] v of
        None \<Rightarrow> Inl (ValueError v)
      | Some i \<Rightarrow> Inr (set_font_property (Slant v) l))"

definition underline_set :: "string \<Rightarrow> stylelabel \<Rightarrow> error + stylelabel" where
  "underline_set v l =
     (case index [''normal'', ''underline''] v of
        None \<Rightarrow> Inl (ValueError v)
      | Some i \<Rightarrow> Inr (set_font_property (Underline (int i)) l))"

definition strikethrough_set :: "string \<Rightarrow> stylelabel \<Rightarrow> error + stylelabel" where
  "strikethrough_set v l =
     (case index [''normal'', ''strikethrough''] v of
        None \<Rightarrow> Inl (ValueError v)
      | Some i \<Rightarrow> Inr (set_font_property (Overstrike (int i)) l))"

text \<open>The getters.\<close>

definition font_weight :: "stylelabel \<Rightarrow> string" where
  "font_weight l = f_weight (get_current_font l)"

definition font_style :: "stylelabel \<Rightarrow> string" where
  "font_style l = (if f_slant (get_current_font l) = ''roman'' then ''normal'' else ''italic'')"

definition underline :: "stylelabel \<Rightarrow> string" where
  "underline l = (if f_underline (get_current_font l) = 0 then ''normal'' else ''underline'')"

definition strikethrough :: "stylelabel \<Rightarrow> string" where
  "strikethrough l =
     (if f_overstrike (get_current_font l) = 0 then ''normal'' else ''strikethrough'')"

subsection \<open>\<open>Dropdown.selected\<close>\<close>

text \<open>The \<open>values\<close> option of the \<open>ttk.Combobox\<close> and the text it shows.
  \<open>Combobox.current()\<close> is the position of the shown text among the values, or -1;
  \<open>Combobox.set(value)\<close> replaces the shown text.\<close>

record dropdown =
  dd_values :: "string list"
  dd_shown :: string

definition current :: "dropdown \<Rightarrow> int" where
  "current d = (case index (dd_values d) (dd_shown d) of None \<Rightarrow> -1 | Some i \<Rightarrow> int i)"

definition Dropdown_selected :: "dropdown \<Rightarrow> string option" where
  "Dropdown_selected d =
     (let i = current d in
      if i = -1 then None else Some (dd_values d ! nat i))"

definition Dropdown_selected_set :: "string \<Rightarrow> dropdown \<Rightarrow> error + dropdown" where
  "Dropdown_selected_set v d =
     (case index (dd_values d) v of
        None \<Rightarrow> Inl (ValueError v)
      | Some i \<Rightarrow> Inr (d\<lparr>dd_shown := v\<rparr>))"

subsection \<open>\<open>RadiogroupBase.selected\<close>\<close>

text \<open>The texts of the radiobuttons of the group (its \<open>options\<close>) and the
  \<open>StringVar\<close> \<open>_selected\<close> they share. The getter returns the variable's string, or
  \<open>None\<close> when it is empty; the setter is \<open>self._selected.set(value)\<close> and nothing
  else.\<close>

record radiogroup =
  rg_options :: "string list"
  rg_selected :: string

definition Radiogroup_selected :: "radiogroup \<Rightarrow> string option" where
  "Radiogroup_selected g = (if rg_selected g \<noteq> [] then Some (rg_selected g) else None)"

definition Radiogroup_selected_set :: "string \<Rightarrow> radiogroup \<Rightarrow> error + radiogroup" where
  "Radiogroup_selected_set v g = Inr (g\<lparr>rg_selected := v\<rparr>)"

subsection \<open>\<open>Listbox.selected_index\<close> and \<open>Listbox.selected\<close>\<close>

text \<open>The lines of the \<open>tk.Listbox\<close> and \<open>curselection()\<close>, the tuple of the selected
  positions.\<close>

record listbox =
  lb_items :: "string list"
  curselection :: "nat list"

text \<open>The three shapes the accessors return: \<open>None\<close>, one value, or a collection.\<close>

datatype 'a shape = Nothing | One 'a | Several "'a list"

definition selected_index :: "listbox \<Rightarrow> nat shape" where
  "selected_index lb =
     (let select = curselection lb in
      if length select = 0 then Nothing
      else if length select = 1 then One (select ! 0)
      else Several select)"

text \<open>\<open>self.get(0, 'end')[i]\<close>: indexing the tuple of all lines.\<close>

definition line_at :: "listbox \<Rightarrow> nat \<Rightarrow> error + string" where
  "line_at lb i = (if i < length (lb_items lb) then Inr (lb_items lb ! i) else Inl IndexError)"

fun lines_at :: "listbox \<Rightarrow> nat list \<Rightarrow> error + string list" where
  "lines_at lb [] = Inr []"
| "lines_at lb (i # is) =
     (case line_at lb i of
        Inl e \<Rightarrow> Inl e
      | Inr x \<Rightarrow> (case lines_at lb is of Inl e \<Rightarrow> Inl e | Inr xs \<Rightarrow> Inr (x # xs)))"

definition selected :: "listbox \<Rightarrow> error + string shape" where
  "selected lb =
     (let select = curselection lb in
      if length select = 0 then Inr Nothing
      else if length select = 1
      then (case line_at lb (select ! 0) of Inl e \<Rightarrow> Inl e | Inr x \<Rightarrow> Inr (One x))
      else (case lines_at lb select of Inl e \<Rightarrow> Inl e | Inr xs \<Rightarrow> Inr (Several xs)))"

subsection \<open>Where an event is wired\<close>

text \<open>The native trigger \<open>add_event_listener\<close> uses for an event name on a widget of a
  class, read off its wiring blocks: a bound sequence, the \<open>command\<close> option, the
  commands of the radiobuttons, or a write trace of the variable.\<close>

datatype trigger = Bound_sequence string | Command_option | Radiobutton_commands | Write_trace

definition native_trigger :: "kind \<Rightarrow> string \<Rightarrow> trigger option" where
  "native_trigger k name =
     (case map_of tk_event_mappings name of
        Some seq \<Rightarrow> Some (Bound_sequence seq)
      | None \<Rightarrow>
          if name = ''change''
          then (if isinstance_RadiogroupBase k then Some Radiobutton_commands
                else if k = Slider then Some Command_option
                else if isinstance_Checkbox_Spinbox k then Some Command_option
                else if isinstance_Input k then Some Write_trace
                else if k = Textbox then Some (Bound_sequence ''<<Modified>>'')
                else None)
          else if name = ''press'' then Some Command_option
          else if name = ''select''
          then (if k = Listbox then Some (Bound_sequence ''<<ListboxSelect>>'')
                else if k = Dropdown then Some (Bound_sequence ''<<ComboboxSelected>>'')
                else None)
          else None)"

text \<open>The trigger of the event carries a handler that dispatches the event.\<close>

definition attached :: "string \<Rightarrow> widget_state \<Rightarrow> bool" where
  "attached name w =
     (case native_trigger (kind_of w) name of
        None \<Rightarrow> False
      | Some (Bound_sequence seq) \<Rightarrow> bindings w seq = Some (Event_partial name)
      | Some Command_option \<Rightarrow>
          (case command w of None \<Rightarrow> False | Some h \<Rightarrow> dispatches h = Some name)
      | Some Radiobutton_commands \<Rightarrow>
          list_all (\<lambda>rb. rb = Some (Event_partial name)) (radiobuttons w)
      | Some Write_trace \<Rightarrow> Text_change_partial name \<in> set (traces w))"

subsection \<open>Native stimuli and the states a widget can reach\<close>

text \<open>What tkinter can do to a widget: fire a sequence, invoke the command (a click
  on a button, a checkbox or a spinbox arrow), set the scale, invoke a radiobutton,
  write the variable of an Input. Each stimulus acts on one kind of trigger.\<close>

datatype stimulus =
    Sequence_fired string tk_event
  | Command_invoked
  | Scale_set real
  | Radiobutton_invoked nat
  | Variable_written string

fun stimulate :: "stimulus \<Rightarrow> widget_state \<Rightarrow> widget_state" where
  "stimulate (Sequence_fired seq e) w = state_of (tk_fire_sequence seq e w)"
| "stimulate Command_invoked w = state_of (tk_invoke_command w)"
| "stimulate (Scale_set v) w = state_of (tk_scale_set v w)"
| "stimulate (Radiobutton_invoked i) w = state_of (tk_radiobutton_invoke i w)"
| "stimulate (Variable_written s) w = tk_variable_write s w"

fun trigger_of :: "stimulus \<Rightarrow> trigger" where
  "trigger_of (Sequence_fired seq e) = Bound_sequence seq"
| "trigger_of Command_invoked = Command_option"
| "trigger_of (Scale_set v) = Command_option"
| "trigger_of (Radiobutton_invoked i) = Radiobutton_commands"
| "trigger_of (Variable_written s) = Write_trace"

text \<open>The states of a widget: those its constructor yields, and those the
  operations of the mixin and the native stimuli lead to, whether a call returned or
  raised.\<close>

inductive reachable :: "widget_state \<Rightarrow> bool" where
  "reachable Label_init"
| "reachable (state_of (Button_init callback))"
| "reachable (state_of (ImageButton_init callback))"
| "reachable (Slider_init low high orientation)"
| "reachable StyleLabel_init"
| "reachable Hyperlink_init"
| "reachable Image_init"
| "reachable Input_init"
| "reachable Secret_init"
| "reachable Listbox_init"
| "reachable Textbox_init"
| "reachable Checkbox_init"
| "reachable (Radiogroup_init choices)"
| "reachable (LabelRadiogroup_init choices)"
| "reachable Dropdown_init"
| "reachable Spinbox_init"
| "reachable Table_init"
| "reachable w \<Longrightarrow> reachable (state_of (add_event_listener name cb w))"
| "reachable w \<Longrightarrow> reachable (state_of (remove_event_listener name w))"
| "reachable w \<Longrightarrow> reachable (state_of (disabled_set v w))"
| "reachable w \<Longrightarrow> reachable (stimulate s w)"

text \<open>An invariant of the native wiring: a bound handler is the widget's own or the
  partial of \<open>_event\<close> for the event whose trigger the sequence is; only a widget with
  a \<open>command\<close> option has a command; the radiobuttons and the traces carry nothing
  but the handlers of \<open>change\<close>.\<close>

fun binding_ok :: "kind \<Rightarrow> string \<Rightarrow> handler \<Rightarrow> bool" where
  "binding_ok k seq (Event_partial n) = (native_trigger k n = Some (Bound_sequence seq))"
| "binding_ok k seq (Own_handler x) = True"
| "binding_ok k seq h = False"

definition wiring_ok :: "widget_state \<Rightarrow> bool" where
  "wiring_ok w \<longleftrightarrow>
     (\<forall>seq h. bindings w seq = Some h \<longrightarrow> binding_ok (kind_of w) seq h)
   \<and> (has_command (kind_of w) \<or> command w = None)
   \<and> list_all (\<lambda>rb. rb = None \<or> rb = Some (Event_partial ''change'')) (radiobuttons w)
   \<and> list_all (\<lambda>h. h = Text_change_partial ''change'') (traces w)"

subsection \<open>What a set of the scale makes the variable yield\<close>


section \<open>Concrete widgets for the runs below\<close>

text \<open>A slider from 0 to 100 (an integer slider), the same with a listener, and that
  one set to 50.\<close>

definition slider_0_100 :: widget_state where
  "slider_0_100 = Slider_init (Int_number 0) (Int_number 100) ''horizontal''"

definition slider_with_listener :: widget_state where
  "slider_with_listener = state_of (add_event_listener ''change'' on_change slider_0_100)"






text \<open>Callbacks that are not plain functions of one parameter: the bound methods of
  \<open>def on_click(self, event)\<close> and of \<open>def no_event(self)\<close>, the function
  \<open>def needs_extra(event, *, extra)\<close>, and \<open>functools.partial(two)\<close> for a function
  \<open>two\<close> of two parameters.\<close>

definition on_click :: callback where
  "on_click = Bound_method ''on_click'' 2 0"

definition no_event :: callback where
  "no_event = Bound_method ''no_event'' 1 0"

definition needs_extra :: callback where
  "needs_extra = Function ''needs_extra'' 1 1"

definition partial_two :: callback where
  "partial_two = Callable_object 2"

text \<open>A radiogroup of two choices, nothing selected.\<close>

definition two_choices :: radiogroup where
  "two_choices = \<lparr> rg_options = [''a'', ''b''], rg_selected = [] \<rparr>"

text \<open>A mouse click as tkinter reports it (a mouse event has \<open>??\<close> as its character).\<close>

definition click :: tk_event where
  "click = \<lparr> tk_x = 3, tk_y = 4, tk_x_root = 103, tk_y_root = 204,
             tk_char = ''??'', tk_keysym = ''??'', tk_keycode = 0 \<rparr>"

text \<open>A listbox with a listener for \<open>select\<close>.\<close>

definition listbox_with_listener :: widget_state where
  "listbox_with_listener = state_of (add_event_listener ''select'' on_change Listbox_init)"

text \<open>A label in the default font, a dropdown of three colours, a listbox of three
  lines.\<close>

definition plain_label :: stylelabel where
  "plain_label =
     \<lparr> default_font = \<lparr> f_family = ''Helvetica'', f_size = 10, f_weight = ''normal'',
                         f_slant = ''roman'', f_underline = 0, f_overstrike = 0 \<rparr>,
       style_font = None \<rparr>"

definition colours :: dropdown where
  "colours = \<lparr> dd_values = [''red'', ''green'', ''blue''], dd_shown = [] \<rparr>"

definition fruit :: "nat list \<Rightarrow> listbox" where
  "fruit sel = \<lparr> lb_items = [''apple'', ''pear'', ''plum''], curselection = sel \<rparr>"

section \<open>Registration and dispatch\<close>

subsection \<open>Facts about \<open>_event\<close>\<close>

lemma event_no_key:
  "has_events (kind_of w) \<Longrightarrow> events w name = None \<Longrightarrow>
   event name tk w = Raises (AttributeError name) w"
  by (simp add: event_def)

lemma event_no_listener:
  "has_events (kind_of w) \<Longrightarrow> events w name = Some None \<Longrightarrow>
   event name tk w = Raises TypeError w"
  by (simp add: event_def)

lemma event_listener:
  "has_events (kind_of w) \<Longrightarrow> events w name = Some (Some cb) \<Longrightarrow>
   accepts_single_argument cb \<Longrightarrow>
   event name tk w = Returns (w\<lparr>calls := calls w @ [(cb, make_event name (kind_of w) tk)]\<rparr>)"
  by (simp add: event_def)

lemma event_silent:
  "\<not> has_events (kind_of w) \<or> events w name = Some None \<Longrightarrow>
   calls (state_of (event name tk w)) = calls w"
  by (auto simp: event_def)

lemma events_GooeyPieWidget_init:
  "events (GooeyPieWidget_init k) name =
     (if name \<in> set (map fst tk_event_mappings) then Some None else None)"
  by (simp add: GooeyPieWidget_init_def tk_event_mappings_def)

lemma kind_of_GooeyPieWidget_init [simp]: "kind_of (GooeyPieWidget_init k) = k"
  by (simp add: GooeyPieWidget_init_def)

lemmas wire_defs =
  wire_tk_event_def wire_change_def wire_press_def wire_select_def
  wire_change_radio_def wire_change_slider_def wire_change_checkbox_def
  wire_change_input_def wire_change_textbox_def configure_command_def bind_def trace_def

subsection \<open>The check of the callback\<close>

lemma add_event_listener_wrong_co_argcount:
  assumes "has_events (kind_of w)" and "events w name = Some entry"
    and "co_argcount cb = Some n" and "n \<noteq> 1"
  shows "add_event_listener name cb w
           = Raises (GooeyPieError (InvalidCallback (cb_name cb))) w"
  using assms by (simp add: add_event_listener_def)

text \<open>
  Claim C3, at inputs where the code departs from it. The code tests
  \<open>co_argcount\<close>, not the arity. The bound method of \<open>def no_event(self)\<close> takes no
  argument, and \<open>def needs_extra(event, *, extra)\<close> cannot be called with the event
  alone, yet both have \<open>co_argcount\<close> 1: \<open>add_event_listener\<close> returns and the table
  holds them. \<open>functools.partial(two)\<close> takes two arguments and has no \<open>__code__\<close>: the
  call ends in AttributeError, not in the GooeyPieError about the callback.
\<close>

theorem add_event_listener_accepts_wrong_arity:
  "\<not> accepts_single_argument no_event
   \<and> add_event_listener ''mouse_down'' no_event Label_init
       = Returns (bind ''<Button-1>'' (Event_partial ''mouse_down'')
           (Label_init\<lparr>events := (events Label_init)(''mouse_down'' \<mapsto> Some no_event)\<rparr>))
   \<and> \<not> accepts_single_argument needs_extra
   \<and> add_event_listener ''mouse_down'' needs_extra Label_init
       = Returns (bind ''<Button-1>'' (Event_partial ''mouse_down'')
           (Label_init\<lparr>events := (events Label_init)(''mouse_down'' \<mapsto> Some needs_extra)\<rparr>))
   \<and> \<not> accepts_single_argument partial_two
   \<and> add_event_listener ''mouse_down'' partial_two Label_init
       = Raises (AttributeError ''__code__'') Label_init"
  by (simp add: no_event_def needs_extra_def partial_two_def add_event_listener_def
        Label_init_def has_events_def events_GooeyPieWidget_init tk_event_mappings_def
        wire_defs)

subsection \<open>Dispatch without a listener\<close>

text \<open>
  Claim C5, at the input where the code departs from it. A fresh Label has the key
  \<open>mouse_down\<close> with no callback. Dispatching \<open>mouse_down\<close> there does not end in
  the AttributeError that \<open>_event\<close> raises for a missing listener: the stored
  \<open>None\<close> is called, and the TypeError of that call is not caught.
\<close>

theorem event_without_listener_is_TypeError:
  "events Label_init ''mouse_down'' = Some None
   \<and> event ''mouse_down'' None Label_init = Raises TypeError Label_init"
  by (simp add: event_no_listener Label_init_def has_events_def events_GooeyPieWidget_init
        tk_event_mappings_def)

subsection \<open>Removing a listener\<close>

text \<open>
  Claim C4, at the input where the code departs from it. \<open>select\<close> is an event of
  every Listbox, yet \<open>remove_event_listener('select')\<close> on a fresh Listbox raises the
  ValueError for an invalid event name: the name is looked up in
  \<open>_tk_event_mappings\<close>, where it is no key.
\<close>

theorem remove_select_on_Listbox_raises:
  "events Listbox_init ''select'' = Some None
   \<and> remove_event_listener ''select'' Listbox_init
       = Raises (ValueError ''select'') Listbox_init"
  by (simp add: remove_event_listener_def Listbox_init_def declare_event_def
        tk_event_mappings_def has_events_def raise_with_self_def)

text \<open>
  Claim C6, at the input where the code departs from it. \<open>foo\<close> is no key of a fresh
  Label. \<open>remove_event_listener('foo')\<close> raises the ValueError, but the assignment
  before it has made \<open>foo\<close> a key: the table has grown, and a later
  \<open>add_event_listener('foo', on_change)\<close> returns and stores the callback.
\<close>

theorem remove_unknown_name_adds_key:
  "events Label_init ''foo'' = None
   \<and> remove_event_listener ''foo'' Label_init
       = Raises (ValueError ''foo'') (declare_event ''foo'' Label_init)
   \<and> events (declare_event ''foo'' Label_init) ''foo'' = Some None
   \<and> add_event_listener ''foo'' on_change (declare_event ''foo'' Label_init)
       = Returns ((declare_event ''foo'' Label_init)
           \<lparr>events := (events (declare_event ''foo'' Label_init))(''foo'' \<mapsto> Some on_change)\<rparr>)"
  by (simp add: remove_event_listener_def add_event_listener_def Label_init_def
        declare_event_def events_GooeyPieWidget_init tk_event_mappings_def on_change_def
        wire_tk_event_def wire_change_def wire_press_def wire_select_def has_events_def
        raise_with_self_def)

subsection \<open>Registering a listener\<close>

lemma add_event_listener_unknown_name:
  "has_events (kind_of w) \<Longrightarrow> str_error (kind_of w) = None \<Longrightarrow> events w name = None \<Longrightarrow>
   add_event_listener name cb w = Raises (GooeyPieError (InvalidEvent name)) w"
  by (simp add: add_event_listener_def raise_with_self_def)

lemma add_event_listener_tk_event:
  assumes "has_events (kind_of w)" and "events w name = Some entry"
    and "co_argcount cb = Some 1" and "map_of tk_event_mappings name = Some seq"
  shows "\<exists>w'. add_event_listener name cb w = Returns w'
           \<and> events w' = (events w)(name \<mapsto> Some cb) \<and> attached name w'"
proof -
  from assms(4) have "name \<noteq> ''change''" and "name \<noteq> ''press''" and "name \<noteq> ''select''"
    by (auto simp: tk_event_mappings_def)
  with assms show ?thesis
    by (simp add: add_event_listener_def wire_defs attached_def native_trigger_def)
qed

lemma add_event_listener_class_event:
  assumes "has_events (kind_of w)" and "events w name = Some entry"
    and "co_argcount cb = Some 1" and "name \<in> set (class_events (kind_of w))"
  shows "\<exists>w'. add_event_listener name cb w = Returns w'
           \<and> events w' = (events w)(name \<mapsto> Some cb) \<and> attached name w'"
  using assms
  by (cases "kind_of w")
     (simp_all add: add_event_listener_def wire_defs attached_def native_trigger_def
        tk_event_mappings_def list_all_iff)

text \<open>The keys a constructor creates are the event names of the class.\<close>

lemma constructor_keys:
  "events Label_init name \<noteq> None \<longleftrightarrow> name \<in> set (supported_events Label)"
  "events (Slider_init low high orientation) name \<noteq> None
     \<longleftrightarrow> name \<in> set (supported_events Slider)"
  "events StyleLabel_init name \<noteq> None \<longleftrightarrow> name \<in> set (supported_events StyleLabel)"
  "events Hyperlink_init name \<noteq> None \<longleftrightarrow> name \<in> set (supported_events Hyperlink)"
  "events Image_init name \<noteq> None \<longleftrightarrow> name \<in> set (supported_events Image)"
  "events Input_init name \<noteq> None \<longleftrightarrow> name \<in> set (supported_events Input)"
  "events Secret_init name \<noteq> None \<longleftrightarrow> name \<in> set (supported_events Secret)"
  "events Listbox_init name \<noteq> None \<longleftrightarrow> name \<in> set (supported_events Listbox)"
  "events Textbox_init name \<noteq> None \<longleftrightarrow> name \<in> set (supported_events Textbox)"
  "events Checkbox_init name \<noteq> None \<longleftrightarrow> name \<in> set (supported_events Checkbox)"
  "events (Radiogroup_init choices) name \<noteq> None
     \<longleftrightarrow> name \<in> set (supported_events Radiogroup)"
  "events (LabelRadiogroup_init choices) name \<noteq> None
     \<longleftrightarrow> name \<in> set (supported_events LabelRadiogroup)"
  "events Dropdown_init name \<noteq> None \<longleftrightarrow> name \<in> set (supported_events Dropdown)"
  "events Spinbox_init name \<noteq> None \<longleftrightarrow> name \<in> set (supported_events Spinbox)"
  "events Table_init name \<noteq> None \<longleftrightarrow> name \<in> set (supported_events Table)"
  by (auto simp: Label_init_def Slider_init_def StyleLabel_init_def Hyperlink_init_def
        Image_init_def Input_init_def Secret_init_def Listbox_init_def Textbox_init_def
        Checkbox_init_def Radiogroup_init_def LabelRadiogroup_init_def RadiogroupBase_init_def
        Dropdown_init_def Spinbox_init_def Table_init_def declare_event_def bind_def Let_def
        events_GooeyPieWidget_init supported_events_def has_events_def)

text \<open>
  Claim C2, at inputs where the code departs from it. The bound method of
  \<open>def on_click(self, event)\<close> takes exactly the event, and \<open>mouse_down\<close> is an event
  of a Label, yet \<open>add_event_listener\<close> refuses it with the GooeyPieError about the
  callback and stores nothing: its \<open>co_argcount\<close> is 2. And \<open>press\<close> is no event of a
  Radiogroup, yet \<open>add_event_listener('press', on_change)\<close> on a Radiogroup ends in
  AttributeError, not in the GooeyPieError about the event: the message formats the
  widget, and \<open>Radiogroup.__str__\<close> reads the attribute \<open>choices\<close>, which does not
  exist.
\<close>

theorem add_event_listener_refuses_bound_method:
  "accepts_single_argument on_click
   \<and> events Label_init ''mouse_down'' = Some None
   \<and> ''mouse_down'' \<in> set (supported_events Label)
   \<and> add_event_listener ''mouse_down'' on_click Label_init
       = Raises (GooeyPieError (InvalidCallback ''on_click'')) Label_init
   \<and> events (Radiogroup_init [''a'', ''b'']) ''press'' = None
   \<and> add_event_listener ''press'' on_change (Radiogroup_init [''a'', ''b''])
       = Raises (AttributeError ''choices'') (Radiogroup_init [''a'', ''b''])"
  by (simp add: on_click_def on_change_def add_event_listener_def Label_init_def
        Radiogroup_init_def RadiogroupBase_init_def declare_event_def has_events_def
        events_GooeyPieWidget_init tk_event_mappings_def supported_events_def
        raise_with_self_def)

subsection \<open>A removed listener is not called\<close>

lemma wiring_ok_init: "wiring_ok (GooeyPieWidget_init k)"
  by (simp add: wiring_ok_def GooeyPieWidget_init_def)

lemma wiring_ok_declare: "wiring_ok w \<Longrightarrow> wiring_ok (declare_event n w)"
  by (simp add: wiring_ok_def declare_event_def)

lemma wiring_ok_and_then:
  "wiring_ok (state_of r) \<Longrightarrow> (\<And>w. wiring_ok w \<Longrightarrow> wiring_ok (state_of (f w))) \<Longrightarrow>
   wiring_ok (state_of (and_then r f))"
  by (cases r) simp_all

lemma native_trigger_tk:
  "map_of tk_event_mappings name = Some seq \<Longrightarrow> native_trigger k name = Some (Bound_sequence seq)"
  by (simp add: native_trigger_def)

lemma wiring_ok_bind:
  "wiring_ok w \<Longrightarrow> native_trigger (kind_of w) name = Some (Bound_sequence seq) \<Longrightarrow>
   wiring_ok (bind seq (Event_partial name) w)"
  by (simp add: wiring_ok_def bind_def)

lemma wiring_ok_bind_own:
  "wiring_ok w \<Longrightarrow> wiring_ok (bind seq (Own_handler x) w)"
  by (simp add: wiring_ok_def bind_def)

lemma wiring_ok_unbind: "wiring_ok w \<Longrightarrow> wiring_ok (unbind seq w)"
  by (simp add: wiring_ok_def unbind_def)

lemma wiring_ok_configure: "wiring_ok w \<Longrightarrow> wiring_ok (state_of (configure_command c w))"
  by (auto simp: wiring_ok_def configure_command_def)

lemma wiring_ok_events_update: "wiring_ok w \<Longrightarrow> wiring_ok (w\<lparr>events := m\<rparr>)"
  by (simp add: wiring_ok_def)

text \<open>The invariant reads the wiring only.\<close>

lemma wiring_ok_updates:
  "wiring_ok (w\<lparr>events := m\<rparr>) = wiring_ok w"
  "wiring_ok (w\<lparr>disabled := d\<rparr>) = wiring_ok w"
  "wiring_ok (w\<lparr>var_is_double := b\<rparr>) = wiring_ok w"
  "wiring_ok (w\<lparr>scale_from := x\<rparr>) = wiring_ok w"
  "wiring_ok (w\<lparr>scale_to := x\<rparr>) = wiring_ok w"
  "wiring_ok (w\<lparr>slider_var := x\<rparr>) = wiring_ok w"
  "wiring_ok (w\<lparr>previous_value := x\<rparr>) = wiring_ok w"
  "wiring_ok (w\<lparr>text_var := t\<rparr>) = wiring_ok w"
  "wiring_ok (w\<lparr>calls := c\<rparr>) = wiring_ok w"
  by (simp_all add: wiring_ok_def)

lemma wiring_ok_wire_tk_event: "wiring_ok w \<Longrightarrow> wiring_ok (state_of (wire_tk_event name w))"
  by (cases "map_of tk_event_mappings name")
     (simp_all add: wire_tk_event_def wiring_ok_bind native_trigger_tk)


lemma wiring_ok_wire_change_radio:
  "wiring_ok w \<Longrightarrow> wiring_ok (state_of (wire_change_radio ''change'' w))"
  by (simp add: wiring_ok_def wire_change_radio_def list_all_iff)

lemma wiring_ok_wire_change_slider:
  "wiring_ok w \<Longrightarrow> wiring_ok (state_of (wire_change_slider name w))"
  by (simp add: wire_change_slider_def wiring_ok_configure)

lemma wiring_ok_wire_change_checkbox:
  "wiring_ok w \<Longrightarrow> wiring_ok (state_of (wire_change_checkbox name w))"
  by (simp add: wire_change_checkbox_def wiring_ok_configure)

lemma wiring_ok_wire_change_input:
  "wiring_ok w \<Longrightarrow> wiring_ok (state_of (wire_change_input ''change'' w))"
  by (simp add: wiring_ok_def wire_change_input_def trace_def)

lemma wiring_ok_wire_change_textbox:
  "wiring_ok w \<Longrightarrow> wiring_ok (state_of (wire_change_textbox ''change'' w))"
  by (simp add: wire_change_textbox_def wiring_ok_bind native_trigger_def tk_event_mappings_def)

lemma wiring_ok_wire_change: "wiring_ok w \<Longrightarrow> wiring_ok (state_of (wire_change name w))"
proof (cases "name = ''change''")
  case False
  then show "wiring_ok w \<Longrightarrow> ?thesis" by (simp add: wire_change_def)
next
  case True
  assume ok: "wiring_ok w"
  have 1: "wiring_ok (state_of (wire_change_radio ''change'' w))"
    using ok by (rule wiring_ok_wire_change_radio)
  have 2: "wiring_ok (state_of (and_then (wire_change_radio ''change'' w)
             (wire_change_slider ''change'')))"
    using 1 by (rule wiring_ok_and_then) (rule wiring_ok_wire_change_slider)
  have 3: "wiring_ok (state_of (and_then (and_then (wire_change_radio ''change'' w)
             (wire_change_slider ''change'')) (wire_change_checkbox ''change'')))"
    using 2 by (rule wiring_ok_and_then) (rule wiring_ok_wire_change_checkbox)
  have 4: "wiring_ok (state_of (and_then (and_then (and_then (wire_change_radio ''change'' w)
             (wire_change_slider ''change'')) (wire_change_checkbox ''change''))
             (wire_change_input ''change'')))"
    using 3 by (rule wiring_ok_and_then) (rule wiring_ok_wire_change_input)
  have 5: "wiring_ok (state_of (and_then (and_then (and_then (and_then
             (wire_change_radio ''change'' w)
             (wire_change_slider ''change'')) (wire_change_checkbox ''change''))
             (wire_change_input ''change'')) (wire_change_textbox ''change'')))"
    using 4 by (rule wiring_ok_and_then) (rule wiring_ok_wire_change_textbox)
  with True show ?thesis by (simp add: wire_change_def)
qed

lemma wiring_ok_wire_press: "wiring_ok w \<Longrightarrow> wiring_ok (state_of (wire_press name w))"
  by (simp add: wire_press_def wiring_ok_configure)

lemma wiring_ok_wire_select: "wiring_ok w \<Longrightarrow> wiring_ok (state_of (wire_select name w))"
  by (simp add: wire_select_def wiring_ok_bind native_trigger_def tk_event_mappings_def)

lemma wiring_ok_add: "wiring_ok w \<Longrightarrow> wiring_ok (state_of (add_event_listener name cb w))"
proof -
  assume ok: "wiring_ok w"
  let ?w1 = "w\<lparr>events := (events w)(name \<mapsto> Some cb)\<rparr>"
  have 0: "wiring_ok ?w1"
    using ok by (rule wiring_ok_events_update)
  have 1: "wiring_ok (state_of (wire_tk_event name ?w1))"
    using 0 by (rule wiring_ok_wire_tk_event)
  have 2: "wiring_ok (state_of (and_then (wire_tk_event name ?w1) (wire_change name)))"
    using 1 by (rule wiring_ok_and_then) (rule wiring_ok_wire_change)
  have 3: "wiring_ok (state_of (and_then (and_then (wire_tk_event name ?w1)
             (wire_change name)) (wire_press name)))"
    using 2 by (rule wiring_ok_and_then) (rule wiring_ok_wire_press)
  have 4: "wiring_ok (state_of (and_then (and_then (and_then (wire_tk_event name ?w1)
             (wire_change name)) (wire_press name)) (wire_select name)))"
    using 3 by (rule wiring_ok_and_then) (rule wiring_ok_wire_select)
  with ok show ?thesis
    by (simp add: add_event_listener_def raise_with_self_def split: option.splits)
qed

lemma wiring_ok_remove: "wiring_ok w \<Longrightarrow> wiring_ok (state_of (remove_event_listener name w))"
  by (simp add: remove_event_listener_def Let_def wiring_ok_configure wiring_ok_unbind
        wiring_ok_events_update raise_with_self_def split: option.splits)

lemma wiring_ok_disabled_set: "wiring_ok w \<Longrightarrow> wiring_ok (state_of (disabled_set v w))"
  by (simp add: disabled_set_def Let_def wiring_ok_updates)


lemma call_handler_frame:
  "kind_of (state_of (call_handler h a w)) = kind_of w
   \<and> events (state_of (call_handler h a w)) = events w
   \<and> bindings (state_of (call_handler h a w)) = bindings w
   \<and> command (state_of (call_handler h a w)) = command w
   \<and> radiobuttons (state_of (call_handler h a w)) = radiobuttons w
   \<and> traces (state_of (call_handler h a w)) = traces w"
  by (cases h; cases a)
     (simp_all add: event_def slider_change_event_def text_change_event_def Let_def
        split: option.splits)

lemma wiring_ok_frame:
  "kind_of w' = kind_of w \<Longrightarrow> bindings w' = bindings w \<Longrightarrow> command w' = command w \<Longrightarrow>
   radiobuttons w' = radiobuttons w \<Longrightarrow> traces w' = traces w \<Longrightarrow>
   wiring_ok w \<Longrightarrow> wiring_ok w'"
  by (simp add: wiring_ok_def)

lemma wiring_ok_call_handler: "wiring_ok w \<Longrightarrow> wiring_ok (state_of (call_handler h a w))"
  using call_handler_frame [of h a w] by (auto intro: wiring_ok_frame)

lemma wiring_ok_run_traces: "wiring_ok w \<Longrightarrow> wiring_ok (run_traces hs w)"
  by (induction hs arbitrary: w) (simp_all add: wiring_ok_call_handler)

lemma wiring_ok_stimulate: "wiring_ok w \<Longrightarrow> wiring_ok (stimulate s w)"
  by (cases s)
     (simp_all add: tk_fire_sequence_def tk_invoke_command_def tk_scale_set_def
        tk_radiobutton_invoke_def tk_variable_write_def Let_def wiring_ok_call_handler
        wiring_ok_run_traces wiring_ok_updates split: option.splits)

lemma wiring_ok_fresh_radiobuttons:
  "wiring_ok w \<Longrightarrow> wiring_ok (w\<lparr>radiobuttons := map (\<lambda>choice. None) choices\<rparr>)"
  by (simp add: wiring_ok_def list_all_iff)

lemma wiring_ok_constructors:
  "wiring_ok Label_init" "wiring_ok (state_of (Button_init callback))"
  "wiring_ok (state_of (ImageButton_init callback))"
  "wiring_ok (Slider_init low high orientation)"
  "wiring_ok StyleLabel_init" "wiring_ok Hyperlink_init" "wiring_ok Image_init"
  "wiring_ok Input_init" "wiring_ok Secret_init" "wiring_ok Listbox_init"
  "wiring_ok Textbox_init" "wiring_ok Checkbox_init" "wiring_ok (Radiogroup_init choices)"
  "wiring_ok (LabelRadiogroup_init choices)" "wiring_ok Dropdown_init" "wiring_ok Spinbox_init"
  "wiring_ok Table_init"
  by (simp_all add: Label_init_def Button_init_def ImageButton_init_def Slider_init_def
        StyleLabel_init_def Hyperlink_init_def Image_init_def Input_init_def Secret_init_def
        Listbox_init_def Textbox_init_def Checkbox_init_def Radiogroup_init_def
        LabelRadiogroup_init_def RadiogroupBase_init_def Dropdown_init_def Spinbox_init_def
        Table_init_def Let_def wiring_ok_init wiring_ok_declare wiring_ok_bind_own
        wiring_ok_add wiring_ok_updates wiring_ok_fresh_radiobuttons
        split: option.splits)

lemma reachable_wiring_ok: "reachable w \<Longrightarrow> wiring_ok w"
  by (induction rule: reachable.induct)
     (simp_all add: wiring_ok_constructors wiring_ok_add wiring_ok_remove wiring_ok_stimulate
        wiring_ok_disabled_set)

lemma remove_state:
  "calls (state_of (remove_event_listener name w)) = calls w
   \<and> kind_of (state_of (remove_event_listener name w)) = kind_of w
   \<and> radiobuttons (state_of (remove_event_listener name w)) = radiobuttons w
   \<and> traces (state_of (remove_event_listener name w)) = traces w"
  by (simp add: remove_event_listener_def configure_command_def unbind_def Let_def
        raise_with_self_def split: option.splits)

text \<open>After the removal no listener stands under the name: the entry is \<open>None\<close>, or
  (on a Table) there is no table at all.\<close>

lemma remove_silences:
  "\<not> has_events (kind_of (state_of (remove_event_listener name w)))
   \<or> events (state_of (remove_event_listener name w)) name = Some None"
  by (simp add: remove_event_listener_def configure_command_def unbind_def Let_def
        raise_with_self_def split: option.splits)

lemma no_listener_no_call:
  "\<not> has_events (kind_of w) \<or> events w name = Some None \<Longrightarrow> dispatches h = Some name \<Longrightarrow>
   calls (state_of (call_handler h args w)) = calls w"
  by (cases h; cases args)
     (auto simp: event_def slider_change_event_def text_change_event_def)

lemma tk_sequence_inj:
  "map_of tk_event_mappings n = Some seq \<Longrightarrow> map_of tk_event_mappings m = Some seq \<Longrightarrow> n = m"
  by (auto simp: tk_event_mappings_def split: if_splits)

lemma tk_sequence_not_virtual:
  "map_of tk_event_mappings n = Some seq \<Longrightarrow>
   seq \<noteq> ''<<Modified>>'' \<and> seq \<noteq> ''<<ListboxSelect>>'' \<and> seq \<noteq> ''<<ComboboxSelected>>''"
  by (auto simp: tk_event_mappings_def split: if_splits)

lemma native_trigger_sequence_inj:
  assumes "native_trigger k n = Some (Bound_sequence seq)"
    and "native_trigger k m = Some (Bound_sequence seq)"
  shows "n = m"
proof (cases "map_of tk_event_mappings n")
  case (Some s1)
  with assms(1) have s1: "s1 = seq" by (simp add: native_trigger_def)
  show ?thesis
  proof (cases "map_of tk_event_mappings m")
    case (Some s2)
    with assms(2) have "s2 = seq" by (simp add: native_trigger_def)
    with s1 Some \<open>map_of tk_event_mappings n = Some s1\<close> show ?thesis
      by (auto intro: tk_sequence_inj)
  next
    case None
    with assms(2) tk_sequence_not_virtual [of n seq] s1 \<open>map_of tk_event_mappings n = Some s1\<close>
    show ?thesis
      by (auto simp: native_trigger_def split: if_splits)
  qed
next
  case None
  note nn = None
  show ?thesis
  proof (cases "map_of tk_event_mappings m")
    case (Some s2)
    with assms(2) have "s2 = seq" by (simp add: native_trigger_def)
    with nn assms(1) tk_sequence_not_virtual [of m seq] Some show ?thesis
      by (auto simp: native_trigger_def split: if_splits)
  next
    case None
    with nn assms show ?thesis
      by (auto simp: native_trigger_def split: if_splits)
  qed
qed


lemma native_trigger_command:
  "native_trigger k name = Some Command_option \<Longrightarrow> name = ''change'' \<or> name = ''press''"
  by (auto simp: native_trigger_def split: option.splits if_splits)

lemma native_trigger_radio:
  "native_trigger k name = Some Radiobutton_commands \<Longrightarrow> name = ''change''"
  by (auto simp: native_trigger_def split: option.splits if_splits)

lemma native_trigger_trace:
  "native_trigger k name = Some Write_trace \<Longrightarrow> name = ''change''"
  by (auto simp: native_trigger_def split: option.splits if_splits)

lemma remove_clears_command:
  "wiring_ok w \<Longrightarrow> name = ''change'' \<or> name = ''press'' \<Longrightarrow>
   command (state_of (remove_event_listener name w)) = None"
  by (auto simp: remove_event_listener_def configure_command_def wiring_ok_def Let_def
        has_events_def)

lemma run_traces_no_listener:
  "\<not> has_events (kind_of w) \<or> events w name = Some None \<Longrightarrow>
   list_all (\<lambda>h. h = Text_change_partial name) hs \<Longrightarrow>
   calls (run_traces hs w) = calls w"
proof (induction hs arbitrary: w)
  case Nil
  then show ?case by simp
next
  case (Cons h hs)
  let ?w1 = "state_of (call_handler h (Trace_args ''PY_VAR'' [] ''w'') w)"
  from Cons.prems have h: "h = Text_change_partial name" and hs: "list_all (\<lambda>h. h = Text_change_partial name) hs"
    by simp_all
  have ev: "\<not> has_events (kind_of ?w1) \<or> events ?w1 name = Some None"
    using call_handler_frame [of h "Trace_args ''PY_VAR'' [] ''w''" w] Cons.prems(1) by simp
  have c: "calls ?w1 = calls w"
    by (rule no_listener_no_call [OF Cons.prems(1)]) (simp add: h)
  from Cons.IH [OF ev hs] c show ?case by simp
qed

lemma removed_trigger_is_silent:
  assumes ok: "wiring_ok w"
    and trig: "native_trigger (kind_of w) name = Some (trigger_of s)"
  shows "calls (stimulate s (state_of (remove_event_listener name w))) = calls w"
proof -
  let ?w' = "state_of (remove_event_listener name w)"
  have cl: "calls ?w' = calls w"
    and kd: "kind_of ?w' = kind_of w" and rb: "radiobuttons ?w' = radiobuttons w"
    and tr: "traces ?w' = traces w"
    using remove_state [of name w] by simp_all
  have ev: "\<not> has_events (kind_of ?w') \<or> events ?w' name = Some None"
    by (rule remove_silences)
  have ok': "wiring_ok ?w'"
    using ok by (rule wiring_ok_remove)
  show ?thesis
  proof (cases s)
    case (Sequence_fired seq e)
    show ?thesis
    proof (cases "bindings ?w' seq")
      case None
      with Sequence_fired cl show ?thesis by (simp add: tk_fire_sequence_def)
    next
      case (Some h)
      with ok' kd have bo: "binding_ok (kind_of w) seq h"
        by (auto simp: wiring_ok_def)
      have "calls (state_of (call_handler h (Bound_event e) ?w')) = calls ?w'"
      proof (cases h)
        case (Event_partial n)
        with bo have "native_trigger (kind_of w) n = Some (Bound_sequence seq)" by simp
        with trig Sequence_fired have "n = name"
          by (auto intro: native_trigger_sequence_inj)
        moreover have "calls (state_of (call_handler (Event_partial name) (Bound_event e) ?w'))
                         = calls ?w'"
          by (rule no_listener_no_call [OF ev]) simp
        ultimately show ?thesis
          using Event_partial by simp
      next
        case (Own_handler x)
        then show ?thesis by simp
      next
        case (Slider_change_partial n)
        with bo show ?thesis by simp
      next
        case (Text_change_partial n)
        with bo show ?thesis by simp
      qed
      with Some Sequence_fired cl show ?thesis by (simp add: tk_fire_sequence_def)
    qed
  next
    case Command_invoked
    with trig have "name = ''change'' \<or> name = ''press''"
      by (auto dest: native_trigger_command)
    with ok have "command ?w' = None" by (rule remove_clears_command)
    with Command_invoked cl show ?thesis by (simp add: tk_invoke_command_def)
  next
    case (Scale_set v)
    with trig have "name = ''change'' \<or> name = ''press''"
      by (auto dest: native_trigger_command)
    with ok have "command ?w' = None" by (rule remove_clears_command)
    with Scale_set cl show ?thesis by (simp add: tk_scale_set_def Let_def)
  next
    case (Radiobutton_invoked i)
    with trig have n: "name = ''change''"
      by (auto dest: native_trigger_radio)
    show ?thesis
    proof (cases "i < length (radiobuttons ?w')")
      case False
      with Radiobutton_invoked cl show ?thesis by (simp add: tk_radiobutton_invoke_def)
    next
      case True
      with ok' have "radiobuttons ?w' ! i = None \<or> radiobuttons ?w' ! i = Some (Event_partial ''change'')"
        by (auto simp: wiring_ok_def list_all_length)
      moreover have "calls (state_of (event ''change'' None ?w')) = calls ?w'"
        using ev n by (intro event_silent) simp
      ultimately show ?thesis
        using True Radiobutton_invoked cl by (auto simp: tk_radiobutton_invoke_def)
    qed
  next
    case (Variable_written t)
    with trig have n: "name = ''change''"
      by (auto dest: native_trigger_trace)
    from ok' n have "list_all (\<lambda>h. h = Text_change_partial name) (traces ?w')"
      by (simp add: wiring_ok_def)
    moreover from ev have "\<not> has_events (kind_of (?w'\<lparr>text_var := t\<rparr>))
        \<or> events (?w'\<lparr>text_var := t\<rparr>) name = Some None" by simp
    ultimately have "calls (run_traces (traces ?w') (?w'\<lparr>text_var := t\<rparr>)) = calls (?w'\<lparr>text_var := t\<rparr>)"
      using run_traces_no_listener by blast
    with Variable_written cl show ?thesis by (simp add: tk_variable_write_def)
  qed
qed

lemma supported_has_trigger:
  "name \<in> set (supported_events k) \<Longrightarrow> native_trigger k name \<noteq> None"
proof -
  assume "name \<in> set (supported_events k)"
  then consider (tk) seq where "map_of tk_event_mappings name = Some seq"
    | (own) "name \<in> set (class_events k)"
    by (auto simp: supported_events_def dest: weak_map_of_SomeI split: if_splits)
  then show ?thesis
  proof cases
    case tk
    then show ?thesis by (simp add: native_trigger_tk)
  next
    case own
    then show ?thesis
      by (cases k) (simp_all add: native_trigger_def tk_event_mappings_def)
  qed
qed

lemma handler_after_remove:
  "dispatches h = Some name \<Longrightarrow>
   calls (state_of (call_handler h args (state_of (remove_event_listener name w)))) = calls w"
proof -
  assume d: "dispatches h = Some name"
  have cl: "calls (state_of (remove_event_listener name w)) = calls w"
    using remove_state [of name w] by simp
  from no_listener_no_call [OF remove_silences d, of args w] cl show ?thesis by simp
qed

text \<open>
  Claim C7. Let \<open>w\<close> be any state a widget can reach, and \<open>name\<close> an event with a
  native trigger on the widget's class (every event name of the class has one, by
  \<open>supported_has_trigger\<close>). After \<open>remove_event_listener(name)\<close>, whether it
  returned or raised, any native stimulus on that trigger invokes no user callback:
  the log of calls is as before. More generally, in every state, any handler that
  dispatches \<open>name\<close> invokes no callback right after the removal, since the entry of
  \<open>name\<close> is \<open>None\<close> by then.
\<close>

theorem removed_listener_is_not_called:
  "(reachable w \<and> native_trigger (kind_of w) name = Some (trigger_of s) \<longrightarrow>
      calls (stimulate s (state_of (remove_event_listener name w))) = calls w)
   \<and> (dispatches h = Some name \<longrightarrow>
        calls (state_of (call_handler h args (state_of (remove_event_listener name w))))
          = calls w)"
  using removed_trigger_is_silent [of w name s] reachable_wiring_ok [of w]
    handler_after_remove [of h name args w]
  by blast

lemma slider_with_listener_facts:
  "kind_of slider_with_listener = Slider"
  "events slider_with_listener ''change'' = Some (Some on_change)"
  "command slider_with_listener = Some (Slider_change_partial ''change'')"
  "\<not> disabled slider_with_listener"
  "\<not> var_is_double slider_with_listener"
  "scale_from slider_with_listener = 0"
  "scale_to slider_with_listener = 100"
  "previous_value slider_with_listener = 0"
  "calls slider_with_listener = []"
  by (simp_all add: slider_with_listener_def slider_0_100_def add_event_listener_def
        Slider_init_def declare_event_def events_GooeyPieWidget_init tk_event_mappings_def
        on_change_def wire_defs GooeyPieWidget_init_def Let_def has_events_def value_get_def
        py_int_def)

lemma listbox_with_listener_facts:
  "kind_of listbox_with_listener = Listbox"
  "events listbox_with_listener ''select'' = Some (Some on_change)"
  "bindings listbox_with_listener ''<<ListboxSelect>>'' = Some (Event_partial ''select'')"
  "calls listbox_with_listener = []"
  by (simp_all add: listbox_with_listener_def add_event_listener_def Listbox_init_def
        declare_event_def events_GooeyPieWidget_init tk_event_mappings_def on_change_def
        wire_defs GooeyPieWidget_init_def Let_def has_events_def)

theorem removed_listener_is_not_called_witness:
  "reachable slider_with_listener
   \<and> native_trigger (kind_of slider_with_listener) ''change'' = Some (trigger_of (Scale_set 7))
   \<and> calls (stimulate (Scale_set 7) slider_with_listener)
       = [(on_change, make_event ''change'' Slider None)]
   \<and> calls (stimulate (Scale_set 7)
        (state_of (remove_event_listener ''change'' slider_with_listener))) = []
   \<and> reachable listbox_with_listener
   \<and> native_trigger (kind_of listbox_with_listener) ''select''
       = Some (trigger_of (Sequence_fired ''<<ListboxSelect>>'' click))
   \<and> bindings (state_of (remove_event_listener ''select'' listbox_with_listener))
        ''<<ListboxSelect>>'' = Some (Event_partial ''select'')
   \<and> calls (stimulate (Sequence_fired ''<<ListboxSelect>>'' click) listbox_with_listener)
       = [(on_change, make_event ''select'' Listbox (Some click))]
   \<and> calls (stimulate (Sequence_fired ''<<ListboxSelect>>'' click)
        (state_of (remove_event_listener ''select'' listbox_with_listener))) = []"
proof -
  have r1: "reachable slider_with_listener"
    unfolding slider_with_listener_def slider_0_100_def by (intro reachable.intros)
  have r2: "reachable listbox_with_listener"
    unfolding listbox_with_listener_def by (intro reachable.intros)
  have t1: "native_trigger (kind_of slider_with_listener) ''change''
              = Some (trigger_of (Scale_set 7))"
    by (simp add: slider_with_listener_facts native_trigger_def tk_event_mappings_def)
  have t2: "native_trigger (kind_of listbox_with_listener) ''select''
              = Some (trigger_of (Sequence_fired ''<<ListboxSelect>>'' click))"
    by (simp add: listbox_with_listener_facts native_trigger_def tk_event_mappings_def)
  have c1: "calls slider_with_listener = []"
    by (simp add: slider_with_listener_facts)
  have c2: "calls listbox_with_listener = []"
    by (simp add: listbox_with_listener_facts)
  have b1: "calls (stimulate (Scale_set 7) slider_with_listener)
       = [(on_change, make_event ''change'' Slider None)]"
    by (simp add: slider_with_listener_facts tk_scale_set_def clamp_def
          slider_change_event_def value_get_def py_int_def event_def Let_def has_events_def
          on_change_def)
  have b2: "calls (stimulate (Sequence_fired ''<<ListboxSelect>>'' click) listbox_with_listener)
       = [(on_change, make_event ''select'' Listbox (Some click))]"
    by (simp add: listbox_with_listener_facts tk_fire_sequence_def event_def Let_def
          has_events_def on_change_def)
  have k: "bindings (state_of (remove_event_listener ''select'' listbox_with_listener))
        ''<<ListboxSelect>>'' = Some (Event_partial ''select'')"
    by (simp add: listbox_with_listener_facts remove_event_listener_def
          tk_event_mappings_def Let_def has_events_def raise_with_self_def)
  from r1 t1 c1
    removed_listener_is_not_called [of slider_with_listener "''change''" "Scale_set 7"
      "Own_handler []" No_args]
  have a1: "calls (stimulate (Scale_set 7)
        (state_of (remove_event_listener ''change'' slider_with_listener))) = []"
    by simp
  from r2 t2 c2
    removed_listener_is_not_called [of listbox_with_listener "''select''"
      "Sequence_fired ''<<ListboxSelect>>'' click" "Own_handler []" No_args]
  have a2: "calls (stimulate (Sequence_fired ''<<ListboxSelect>>'' click)
        (state_of (remove_event_listener ''select'' listbox_with_listener))) = []"
    by simp
  from r1 r2 t1 t2 b1 b2 k a1 a2 show ?thesis
    by blast
qed

subsection \<open>The change event of the Slider and of the Input\<close>














section \<open>The property facade: results\<close>

subsection \<open>The getter of \<open>Input.secret\<close>\<close>

text \<open>
  Claim C8. Reading \<open>secret\<close> never yields a value: the getter only calls itself, so
  no state of the entry gives it a result.
\<close>

theorem secret_getter_has_no_result: "secret w = None"
proof (rule ccontr)
  assume "secret w \<noteq> None"
  then obtain y where y: "secret w = Some y"
    by blast
  have step: "\<And>f x z. (\<And>x z. f x = Some z \<Longrightarrow> False) \<Longrightarrow> f x = Some z \<Longrightarrow> False"
    by blast
  from secret.raw_induct [where P = "\<lambda>x z. False", OF step y] show False .
qed

subsection \<open>Setters with an enumeration\<close>

lemma index_absent: "v \<notin> set xs \<Longrightarrow> index xs v = None"
  by (induction xs) auto

lemma index_present: "v \<in> set xs \<Longrightarrow> \<exists>i. index xs v = Some i \<and> i < length xs \<and> xs ! i = v"
  by (induction xs) auto

lemma words_of_options:
  "words_from [] (join_spaces ((if a then [''bold''] else []) @ (if b then [''italic''] else [])
      @ (if c then [''underline''] else []) @ (if d then [''overstrike''] else [])))
   = (if a then [''bold''] else []) @ (if b then [''italic''] else [])
      @ (if c then [''underline''] else []) @ (if d then [''overstrike''] else [])"
  by (cases a; cases b; cases c; cases d) simp_all

text \<open>What the getters see after \<open>_set_font\<close>: the family and the size as given, and
  each style as the option written for it.\<close>

lemma get_current_font_set_font_dict:
  "get_current_font (set_font_dict fd l) =
     \<lparr> f_family = f_family fd, f_size = f_size fd,
       f_weight = (if f_weight fd = ''bold'' then ''bold'' else ''normal''),
       f_slant = (if f_slant fd = ''italic'' then ''italic'' else ''roman''),
       f_underline = (if f_underline fd = 1 then 1 else 0),
       f_overstrike = (if f_overstrike fd = 1 then 1 else 0) \<rparr>"
  by (simp add: get_current_font_def set_font_dict_def actual_def words_of_options)

lemma font_weight_set_accepts:
  "v = ''bold'' \<or> v = ''normal'' \<Longrightarrow>
   \<exists>l'. font_weight_set v l = Inr l' \<and> font_weight l' = v
     \<and> f_family (get_current_font l') = f_family (get_current_font l)
     \<and> f_size (get_current_font l') = f_size (get_current_font l)"
  by (auto simp: font_weight_set_def font_weight_def set_font_property_def
        get_current_font_set_font_dict)

lemma font_weight_set_rejects:
  "v \<noteq> ''bold'' \<Longrightarrow> v \<noteq> ''normal'' \<Longrightarrow> font_weight_set v l = Inl (ValueError v)"
  by (simp add: font_weight_set_def)

lemma font_style_set_accepts:
  "v = ''italic'' \<or> v = ''normal'' \<Longrightarrow>
   \<exists>l'. font_style_set v l = Inr l' \<and> font_style l' = v"
  by (auto simp: font_style_set_def font_style_def set_font_property_def
        get_current_font_set_font_dict)

lemma font_style_set_rejects:
  "v \<noteq> ''italic'' \<Longrightarrow> v \<noteq> ''normal'' \<Longrightarrow> font_style_set v l = Inl (ValueError v)"
  by (simp add: font_style_set_def)

lemma underline_set_accepts:
  "v = ''underline'' \<or> v = ''normal'' \<Longrightarrow>
   \<exists>l'. underline_set v l = Inr l' \<and> underline l' = v"
  by (auto simp: underline_set_def underline_def set_font_property_def
        get_current_font_set_font_dict)

lemma underline_set_rejects:
  "v \<noteq> ''underline'' \<Longrightarrow> v \<noteq> ''normal'' \<Longrightarrow> underline_set v l = Inl (ValueError v)"
  by (simp add: underline_set_def)

lemma strikethrough_set_accepts:
  "v = ''strikethrough'' \<or> v = ''normal'' \<Longrightarrow>
   \<exists>l'. strikethrough_set v l = Inr l' \<and> strikethrough l' = v"
  by (auto simp: strikethrough_set_def strikethrough_def set_font_property_def
        get_current_font_set_font_dict)

lemma strikethrough_set_rejects:
  "v \<noteq> ''strikethrough'' \<Longrightarrow> v \<noteq> ''normal'' \<Longrightarrow>
   strikethrough_set v l = Inl (ValueError v)"
  by (simp add: strikethrough_set_def)

lemma Dropdown_selected_set_rejects:
  "v \<notin> set (dd_values d) \<Longrightarrow> Dropdown_selected_set v d = Inl (ValueError v)"
  by (simp add: Dropdown_selected_set_def index_absent)

lemma Dropdown_selected_set_accepts:
  assumes "v \<in> set (dd_values d)"
  shows "\<exists>d'. Dropdown_selected_set v d = Inr d' \<and> Dropdown_selected d' = Some v
           \<and> dd_values d' = dd_values d \<and> dd_shown d' = v"
proof -
  from index_present [OF assms] obtain i
    where i: "index (dd_values d) v = Some i" and at: "dd_values d ! i = v"
    by blast
  then show ?thesis
    by (simp add: Dropdown_selected_set_def Dropdown_selected_def current_def Let_def)
qed

text \<open>The setters of StyleLabel with an enumeration and \<open>Dropdown.selected\<close> raise
  ValueError, before they change anything, for a value outside the enumeration, and
  otherwise write the value to the native configuration, where the getter reads it
  back.\<close>

lemma validating_setters:
  "(v \<notin> {''bold'', ''normal''} \<longrightarrow> font_weight_set v l = Inl (ValueError v))
   \<and> (v \<in> {''bold'', ''normal''} \<longrightarrow>
        (\<exists>l'. font_weight_set v l = Inr l' \<and> font_weight l' = v
           \<and> f_family (get_current_font l') = f_family (get_current_font l)
           \<and> f_size (get_current_font l') = f_size (get_current_font l)))
   \<and> (u \<notin> set (dd_values d) \<longrightarrow> Dropdown_selected_set u d = Inl (ValueError u))
   \<and> (u \<in> set (dd_values d) \<longrightarrow>
        (\<exists>d'. Dropdown_selected_set u d = Inr d' \<and> Dropdown_selected d' = Some u
           \<and> dd_values d' = dd_values d))
   \<and> (v \<notin> {''italic'', ''normal''} \<longrightarrow> font_style_set v l = Inl (ValueError v))
   \<and> (v \<in> {''italic'', ''normal''} \<longrightarrow>
        (\<exists>l'. font_style_set v l = Inr l' \<and> font_style l' = v))
   \<and> (v \<notin> {''underline'', ''normal''} \<longrightarrow> underline_set v l = Inl (ValueError v))
   \<and> (v \<in> {''underline'', ''normal''} \<longrightarrow>
        (\<exists>l'. underline_set v l = Inr l' \<and> underline l' = v))
   \<and> (v \<notin> {''strikethrough'', ''normal''} \<longrightarrow>
        strikethrough_set v l = Inl (ValueError v))
   \<and> (v \<in> {''strikethrough'', ''normal''} \<longrightarrow>
        (\<exists>l'. strikethrough_set v l = Inr l' \<and> strikethrough l' = v))"
proof -
  have w1: "v \<notin> {''bold'', ''normal''} \<longrightarrow> font_weight_set v l = Inl (ValueError v)"
    using font_weight_set_rejects [of v l] by simp
  have w2: "v \<in> {''bold'', ''normal''} \<longrightarrow>
        (\<exists>l'. font_weight_set v l = Inr l' \<and> font_weight l' = v
           \<and> f_family (get_current_font l') = f_family (get_current_font l)
           \<and> f_size (get_current_font l') = f_size (get_current_font l))"
    using font_weight_set_accepts [of v l] by simp
  have d1: "u \<notin> set (dd_values d) \<longrightarrow> Dropdown_selected_set u d = Inl (ValueError u)"
    using Dropdown_selected_set_rejects [of u d] by simp
  have d2: "u \<in> set (dd_values d) \<longrightarrow>
        (\<exists>d'. Dropdown_selected_set u d = Inr d' \<and> Dropdown_selected d' = Some u
           \<and> dd_values d' = dd_values d)"
    using Dropdown_selected_set_accepts [of u d] by blast
  have s1: "v \<notin> {''italic'', ''normal''} \<longrightarrow> font_style_set v l = Inl (ValueError v)"
    using font_style_set_rejects [of v l] by simp
  have s2: "v \<in> {''italic'', ''normal''} \<longrightarrow>
        (\<exists>l'. font_style_set v l = Inr l' \<and> font_style l' = v)"
    using font_style_set_accepts [of v l] by simp
  have u1: "v \<notin> {''underline'', ''normal''} \<longrightarrow> underline_set v l = Inl (ValueError v)"
    using underline_set_rejects [of v l] by simp
  have u2: "v \<in> {''underline'', ''normal''} \<longrightarrow>
        (\<exists>l'. underline_set v l = Inr l' \<and> underline l' = v)"
    using underline_set_accepts [of v l] by simp
  have k1: "v \<notin> {''strikethrough'', ''normal''} \<longrightarrow>
        strikethrough_set v l = Inl (ValueError v)"
    using strikethrough_set_rejects [of v l] by simp
  have k2: "v \<in> {''strikethrough'', ''normal''} \<longrightarrow>
        (\<exists>l'. strikethrough_set v l = Inr l' \<and> strikethrough l' = v)"
    using strikethrough_set_accepts [of v l] by simp
  from w1 w2 d1 d2 s1 s2 u1 u2 k1 k2 show ?thesis
    by blast
qed

text \<open>
  Claim C9, at the input where the code departs from it. The setter of
  \<open>RadiogroupBase.selected\<close> has the choices of the group as its enumeration and checks
  nothing: given \<open>zzz\<close>, which is none of the two choices, it returns, and the getter
  yields \<open>zzz\<close> from then on. Its sibling \<open>Dropdown.selected\<close> raises ValueError for
  the same value.
\<close>

theorem Radiogroup_selected_accepts_any_value:
  "''zzz'' \<notin> set (rg_options two_choices)
   \<and> Radiogroup_selected_set ''zzz'' two_choices = Inr (two_choices\<lparr>rg_selected := ''zzz''\<rparr>)
   \<and> Radiogroup_selected (two_choices\<lparr>rg_selected := ''zzz''\<rparr>) = Some ''zzz''
   \<and> ''zzz'' \<notin> set (dd_values colours)
   \<and> Dropdown_selected_set ''zzz'' colours = Inl (ValueError ''zzz'')"
  by (simp add: two_choices_def colours_def Radiogroup_selected_set_def
        Radiogroup_selected_def Dropdown_selected_set_def)

subsection \<open>The selection of a Listbox\<close>

lemma lines_at_in_range:
  "list_all (\<lambda>i. i < length (lb_items lb)) js \<Longrightarrow>
   lines_at lb js = Inr (map (\<lambda>i. lb_items lb ! i) js)"
  by (induction js) (auto simp: line_at_def)

text \<open>
  Claim C10. The shape of what the selection accessors return follows the number of
  selected lines: nothing selected gives \<open>None\<close> from both; one selected line gives
  its position from \<open>selected_index\<close> and its text from \<open>selected\<close>; two or more give
  the positions as a collection, and the list of their texts. (The positions are
  those of \<open>curselection()\<close>, which lie within the lines of the listbox.)
\<close>

theorem Listbox_selection_shapes:
  "(curselection lb = [] \<longrightarrow> selected_index lb = Nothing \<and> selected lb = Inr Nothing)
   \<and> (curselection lb = [i] \<and> i < length (lb_items lb) \<longrightarrow>
        selected_index lb = One i \<and> selected lb = Inr (One (lb_items lb ! i)))
   \<and> (2 \<le> length (curselection lb)
        \<and> list_all (\<lambda>i. i < length (lb_items lb)) (curselection lb) \<longrightarrow>
        selected_index lb = Several (curselection lb)
        \<and> selected lb = Inr (Several (map (\<lambda>i. lb_items lb ! i) (curselection lb))))"
  by (auto simp: selected_index_def selected_def line_at_def lines_at_in_range Let_def)

theorem Listbox_selection_shapes_witness:
  "selected_index (fruit []) = Nothing \<and> selected (fruit []) = Inr Nothing
   \<and> selected_index (fruit [1]) = One 1 \<and> selected (fruit [1]) = Inr (One ''pear'')
   \<and> selected_index (fruit [0, 2]) = Several [0, 2]
   \<and> selected (fruit [0, 2]) = Inr (Several [''apple'', ''plum''])"
proof -
  have a: "selected_index (fruit []) = Nothing \<and> selected (fruit []) = Inr Nothing"
    using Listbox_selection_shapes [of "fruit []" 0] by (simp add: fruit_def)
  have b: "selected_index (fruit [1]) = One 1 \<and> selected (fruit [1]) = Inr (One ''pear'')"
    using Listbox_selection_shapes [of "fruit [1]" 1] by (simp add: fruit_def)
  have c: "selected_index (fruit [0, 2]) = Several [0, 2]
           \<and> selected (fruit [0, 2]) = Inr (Several [''apple'', ''plum''])"
    using Listbox_selection_shapes [of "fruit [0, 2]" 0] by (simp add: fruit_def)
  from a b c show ?thesis
    by blast
qed

end
